theory Spec2Isabelle
  imports Main "HOL-Library.Sublist"
begin

section \<open>Data model\<close>

text \<open>
  A value thrown by an awaited call. The source asks of a caught value whether it is an
  \<open>Error\<close> (then it reads \<open>err.message\<close>); of any other value r2.ts takes \<open>String(err)\<close>.
  \<open>NotAnError s\<close> is a value that is not an \<open>Error\<close> and that \<open>String\<close> converts to \<open>s\<close>;
  \<open>Unprintable e\<close> is a value that is not an \<open>Error\<close> and whose conversion throws \<open>e\<close>
  (for an object without a prototype, a \<open>TypeError\<close>).
\<close>

datatype thrown = Error (message: string) | NotAnError string | Unprintable thrown

text \<open>
  The three settings of \<open>MoltbotEnv\<close> (declared in \<open>../types\<close>) that the gateway reads.
  Each may be undefined; \<open>!env.X\<close> holds for an undefined and for an empty string.
\<close>

record MoltbotEnv =
  R2_ACCESS_KEY_ID :: "string option"
  R2_SECRET_ACCESS_KEY :: "string option"
  CF_ACCOUNT_ID :: "string option"

definition falsy :: "string option \<Rightarrow> bool" where
  "falsy x = (case x of None \<Rightarrow> True | Some s \<Rightarrow> s = [])"

definition orEmpty :: "string option \<Rightarrow> string" where
  \<comment> \<open>\<open>x || ''\<close>\<close>
  "orEmpty x = (case x of None \<Rightarrow> [] | Some s \<Rightarrow> s)"

definition interpolate :: "string option \<Rightarrow> string" where
  \<comment> \<open>a value inside a template literal\<close>
  "interpolate x = (case x of None \<Rightarrow> ''undefined'' | Some s \<Rightarrow> s)"

record SyncResult =
  success :: bool
  lastSync :: "string option"
  error :: "string option"
  details :: "string option"

record Logs =
  logs_stdout :: "string option"
  logs_stderr :: "string option"

record CommandExecution =
  stdout :: string
  stderr :: string
  status :: string

record Credentials =
  accessKeyId :: "string option"
  secretAccessKey :: "string option"

record MountOptions =
  endpoint :: string
  credentials :: Credentials

text \<open>
  The sandbox is an external collaborator. It is modelled as a deterministic machine over
  a state \<open>'s\<close> of its own: every awaited call takes the state and gives back either a
  thrown value or a result, with the next state. A process handle carries \<open>getLogs\<close>, the
  optional \<open>getStatus\<close> and the \<open>status\<close> snapshot field.
\<close>

record 's Process =
  getLogs :: "'s \<Rightarrow> (thrown + Logs) \<times> 's"
  getStatus :: "('s \<Rightarrow> (thrown + string) \<times> 's) option"
  proc_status :: string

record 's Sandbox =
  startProcess :: "string \<Rightarrow> 's \<Rightarrow> (thrown + 's Process) \<times> 's"
  mountBucket :: "string \<Rightarrow> string \<Rightarrow> MountOptions \<Rightarrow> 's \<Rightarrow> (thrown + unit) \<times> 's"

text \<open>
  Names the two source files import from modules that are not among the sources
  (\<open>R2_MOUNT_PATH\<close> and \<open>getR2BucketName\<close> of \<open>../config\<close>, \<open>waitForProcess\<close> of
  \<open>./utils\<close>) and the timer behind \<open>setTimeout\<close>: they are parameters of the model.
  While the caller sleeps the sandbox may move on, so the timer acts on its state.
\<close>

record ('s, 'm) Imports =
  R2_MOUNT_PATH :: string
  getR2BucketName :: "'m MoltbotEnv_scheme \<Rightarrow> string"
  waitForProcess :: "'s Process \<Rightarrow> int \<Rightarrow> 's \<Rightarrow> (thrown + unit) \<times> 's"
  setTimeout :: "int \<Rightarrow> 's \<Rightarrow> 's"

text \<open>
  Every call that leaves the gateway is recorded, in order, next to the sandbox state, so
  that "is never invoked", "before" and "exactly k times" are properties of a run.
  Console output is not part of the sandbox interface and is not modelled.
\<close>

datatype call =
    StartProcess string
  | WaitForProcess int
  | GetLogs
  | GetStatus
  | MountBucket string string MountOptions
  | SetTimeout int

record 's world =
  sbState :: 's
  calls :: "call list"

definition invoke :: "call \<Rightarrow> ('s \<Rightarrow> 'a \<times> 's) \<Rightarrow> 's world \<Rightarrow> 'a \<times> 's world" where
  "invoke c f w =
     (case f (sbState w) of (r, s') \<Rightarrow> (r, \<lparr>sbState = s', calls = calls w @ [c]\<rparr>))"

definition sleep :: "('s, 'm) Imports \<Rightarrow> int \<Rightarrow> 's world \<Rightarrow> 's world" where
  \<comment> \<open>\<open>await new Promise((r) => setTimeout(r, ms))\<close>\<close>
  "sleep im ms w = \<lparr>sbState = setTimeout im ms (sbState w), calls = calls w @ [SetTimeout ms]\<rparr>"

section \<open>Strings\<close>

fun str_includes :: "string \<Rightarrow> string \<Rightarrow> bool" where
  "str_includes [] sub = (sub = [])"
| "str_includes (c # cs) sub = (prefix sub (c # cs) \<or> str_includes cs sub)"

text \<open>
  \<open>String.prototype.trim\<close> strips white space and line terminators from both ends. A
  \<open>char\<close> is one code unit below 256; of those, these seven are stripped.
\<close>

definition isSpace :: "char \<Rightarrow> bool" where
  "isSpace c = (c \<in> set [CHR 0x09, CHR 0x0A, CHR 0x0B, CHR 0x0C, CHR 0x0D, CHR 0x20, CHR 0xA0])"

definition trim :: "string \<Rightarrow> string" where
  "trim s = rev (dropWhile isSpace (rev (dropWhile isSpace s)))"

definition isDigit :: "char \<Rightarrow> bool" where
  "isDigit c = (c \<in> set ''0123456789'')"

fun matchesDatePrefix :: "string \<Rightarrow> bool" where
  \<comment> \<open>\<open>/^\d{4}-\d{2}-\d{2}/\<close>\<close>
  "matchesDatePrefix (y1 # y2 # y3 # y4 # h1 # m1 # m2 # h2 # d1 # d2 # rest) =
     (isDigit y1 \<and> isDigit y2 \<and> isDigit y3 \<and> isDigit y4 \<and> h1 = CHR ''-'' \<and>
      isDigit m1 \<and> isDigit m2 \<and> h2 = CHR ''-'' \<and> isDigit d1 \<and> isDigit d2)"
| "matchesDatePrefix _ = False"

text \<open>
  The pattern as the specification words it for the polling loop: four digits, a hyphen
  and two digits. It is not used by the model; the loop is compared with it below.
\<close>

fun matchesYearMonthPrefix :: "string \<Rightarrow> bool" where
  "matchesYearMonthPrefix (y1 # y2 # y3 # y4 # h1 # m1 # m2 # rest) =
     (isDigit y1 \<and> isDigit y2 \<and> isDigit y3 \<and> isDigit y4 \<and> h1 = CHR ''-'' \<and>
      isDigit m1 \<and> isDigit m2)"
| "matchesYearMonthPrefix _ = False"

fun join :: "string \<Rightarrow> string list \<Rightarrow> string" where
  "join sep [] = []"
| "join sep [x] = x"
| "join sep (x # y # ys) = x @ sep @ join sep (y # ys)"

section \<open>sync.ts: running a command, building the copy command\<close>

definition runCommand ::
  "'s Sandbox \<Rightarrow> ('s, 'm) Imports \<Rightarrow> string \<Rightarrow> int \<Rightarrow> 's world \<Rightarrow>
     (thrown + CommandExecution) \<times> 's world" where
  "runCommand sandbox im cmd timeoutMs w =
     (case invoke (StartProcess cmd) (startProcess sandbox cmd) w of
        (Inl e, w1) \<Rightarrow> (Inl e, w1)
      | (Inr proc, w1) \<Rightarrow>
     (case invoke (WaitForProcess timeoutMs) (waitForProcess im proc timeoutMs) w1 of
        (Inl e, w2) \<Rightarrow> (Inl e, w2)
      | (Inr _, w2) \<Rightarrow>
     (case invoke GetLogs (getLogs proc) w2 of
        (Inl e, w3) \<Rightarrow> (Inl e, w3)
      | (Inr logs, w3) \<Rightarrow>
     (case (case getStatus proc of
              Some fresh \<Rightarrow> invoke GetStatus fresh w3
            | None \<Rightarrow> (Inr (proc_status proc), w3)) of
        (Inl e, w4) \<Rightarrow> (Inl e, w4)
      | (Inr st, w4) \<Rightarrow>
          (Inr \<lparr>stdout = orEmpty (logs_stdout logs),
                stderr = orEmpty (logs_stderr logs),
                status = st\<rparr>, w4)))))"

definition syncSteps :: "string \<Rightarrow> string \<Rightarrow> string list" where
  \<comment> \<open>the array literal of \<open>buildSyncCmd\<close>; \<open>mp\<close> is \<open>R2_MOUNT_PATH\<close>\<close>
  "syncSteps mp configDir =
     [''rsync -r --no-times --delete --exclude='*.lock' --exclude='*.log' --exclude='*.tmp' --exclude='.git' ''
        @ configDir @ ''/ '' @ mp @ ''/openclaw/'',
      ''([ -d /root/clawd ] && rsync -r --no-times --delete --exclude='skills' --exclude='.git' /root/clawd/ ''
        @ mp @ ''/workspace/ || true)'',
      ''([ -d /root/clawd/skills ] && rsync -r --no-times --delete /root/clawd/skills/ ''
        @ mp @ ''/skills/ || true)'',
      ''date -Iseconds > '' @ mp @ ''/.last-sync'']"

definition buildSyncCmd :: "string \<Rightarrow> string \<Rightarrow> string" where
  "buildSyncCmd mp configDir = join '' && '' (syncSteps mp configDir)"

section \<open>The compound command as the shell reads it\<close>

text \<open>
  \<open>buildSyncCmd\<close> returns shell text. The shell reads it as an AND-OR list: \<open>&&\<close> and
  \<open>||\<close> have equal precedence and associate to the left, parentheses make a subshell.
  \<open>render\<close> prints such a list back to text, so that the reading below can be compared
  with the string the source builds. \<open>runShell\<close> runs a list given which simple commands
  succeed: it returns whether the list succeeded and the simple commands it ran, in
  order. \<open>true\<close> always succeeds.
\<close>

datatype shell =
    Simple string
  | TrueBuiltin
  | AndList shell shell
  | OrList shell shell
  | Subshell shell

fun render :: "shell \<Rightarrow> string" where
  "render (Simple c) = c"
| "render TrueBuiltin = ''true''"
| "render (AndList a b) = render a @ '' && '' @ render b"
| "render (OrList a b) = render a @ '' || '' @ render b"
| "render (Subshell a) = ''('' @ render a @ '')''"

fun runShell :: "(string \<Rightarrow> bool) \<Rightarrow> shell \<Rightarrow> bool \<times> string list" where
  "runShell ok (Simple c) = (ok c, [c])"
| "runShell ok TrueBuiltin = (True, [''true''])"
| "runShell ok (AndList a b) =
     (case runShell ok a of
        (True, xs) \<Rightarrow> (case runShell ok b of (r, ys) \<Rightarrow> (r, xs @ ys))
      | (False, xs) \<Rightarrow> (False, xs))"
| "runShell ok (OrList a b) =
     (case runShell ok a of
        (True, xs) \<Rightarrow> (True, xs)
      | (False, xs) \<Rightarrow> (case runShell ok b of (r, ys) \<Rightarrow> (r, xs @ ys)))"
| "runShell ok (Subshell a) = runShell ok a"

text \<open>\<open>c1 && c2 && ...\<close>, grouped to the left.\<close>

fun andChain :: "shell list \<Rightarrow> shell" where
  "andChain [] = Simple []"
| "andChain [a] = a"
| "andChain (a # b # cs) = andChain (AndList a b # cs)"

text \<open>The four array elements of \<open>buildSyncCmd\<close> (sync.ts lines 34 to 37), read as shell.\<close>

definition configMirrorCmd :: "string \<Rightarrow> string \<Rightarrow> string" where
  "configMirrorCmd mp configDir =
     ''rsync -r --no-times --delete --exclude='*.lock' --exclude='*.log' --exclude='*.tmp' --exclude='.git' ''
       @ configDir @ ''/ '' @ mp @ ''/openclaw/''"

definition workspaceMirrorCmd :: "string \<Rightarrow> string" where
  "workspaceMirrorCmd mp =
     ''rsync -r --no-times --delete --exclude='skills' --exclude='.git' /root/clawd/ ''
       @ mp @ ''/workspace/''"

definition skillsMirrorCmd :: "string \<Rightarrow> string" where
  "skillsMirrorCmd mp = ''rsync -r --no-times --delete /root/clawd/skills/ '' @ mp @ ''/skills/''"

definition markerWriteCmd :: "string \<Rightarrow> string" where
  "markerWriteCmd mp = ''date -Iseconds > '' @ mp @ ''/.last-sync''"

definition syncStepCmds :: "string \<Rightarrow> string \<Rightarrow> shell list" where
  "syncStepCmds mp configDir =
     [Simple (configMirrorCmd mp configDir),
      Subshell (OrList (AndList (Simple ''[ -d /root/clawd ]'') (Simple (workspaceMirrorCmd mp)))
                       TrueBuiltin),
      Subshell (OrList (AndList (Simple ''[ -d /root/clawd/skills ]'') (Simple (skillsMirrorCmd mp)))
                       TrueBuiltin),
      Simple (markerWriteCmd mp)]"

definition syncAndList :: "string \<Rightarrow> string \<Rightarrow> shell" where
  "syncAndList mp configDir = andChain (syncStepCmds mp configDir)"

text \<open>An outcome of the simple commands: all succeed but the listed ones.\<close>

definition succeedsExcept :: "string list \<Rightarrow> string \<Rightarrow> bool" where
  "succeedsExcept failing c = (c \<notin> set failing)"

section \<open>r2.ts: mounting the bucket\<close>

definition mountCheckCmd :: "string \<Rightarrow> string" where
  \<open>mountCheckCmd mp =
     ''mount | grep -q "s3fs on '' @ mp @ ''" && echo mounted || echo not-mounted''\<close>

definition isR2Mounted ::
  "'s Sandbox \<Rightarrow> ('s, 'm) Imports \<Rightarrow> 's world \<Rightarrow> (thrown + bool) \<times> 's world" where
  \<comment> \<open>the whole body is inside \<open>try\<close>; the handler returns false\<close>
  "isR2Mounted sandbox im w =
     (case invoke (StartProcess (mountCheckCmd (R2_MOUNT_PATH im)))
             (startProcess sandbox (mountCheckCmd (R2_MOUNT_PATH im))) w of
        (Inl err, w1) \<Rightarrow> (Inr False, w1)
      | (Inr proc, w1) \<Rightarrow>
     (case invoke (WaitForProcess 5000) (waitForProcess im proc 5000) w1 of
        (Inl err, w2) \<Rightarrow> (Inr False, w2)
      | (Inr _, w2) \<Rightarrow>
     (case invoke GetLogs (getLogs proc) w2 of
        (Inl err, w3) \<Rightarrow> (Inr False, w3)
      | (Inr logs, w3) \<Rightarrow>
          (Inr (\<not> falsy (logs_stdout logs) \<and>
                str_includes (orEmpty (logs_stdout logs)) ''mounted'' \<and>
                \<not> str_includes (orEmpty (logs_stdout logs)) ''not-mounted''), w3))))"

definition notConfigured :: "'m MoltbotEnv_scheme \<Rightarrow> bool" where
  \<comment> \<open>\<open>!env.R2_ACCESS_KEY_ID || !env.R2_SECRET_ACCESS_KEY || !env.CF_ACCOUNT_ID\<close>\<close>
  "notConfigured env =
     (falsy (R2_ACCESS_KEY_ID env) \<or> falsy (R2_SECRET_ACCESS_KEY env) \<or> falsy (CF_ACCOUNT_ID env))"

definition mountOptions :: "'m MoltbotEnv_scheme \<Rightarrow> MountOptions" where
  "mountOptions env =
     \<lparr>endpoint = ''https://'' @ interpolate (CF_ACCOUNT_ID env) @ ''.r2.cloudflarestorage.com'',
      credentials = \<lparr>accessKeyId = R2_ACCESS_KEY_ID env,
                     secretAccessKey = R2_SECRET_ACCESS_KEY env\<rparr>\<rparr>"

definition errorMessage :: "thrown \<Rightarrow> thrown + string" where
  \<comment> \<open>\<open>err instanceof Error ? err.message : String(err)\<close>, r2.ts line 63\<close>
  "errorMessage err =
     (case err of Error m \<Rightarrow> Inr m | NotAnError s \<Rightarrow> Inr s | Unprintable e \<Rightarrow> Inl e)"

text \<open>
  In the handler of \<open>mountR2Storage\<close> the message is computed first, outside any \<open>try\<close>:
  when the conversion throws, the handler throws and the recheck is not reached.
\<close>

definition mountR2Storage ::
  "'s Sandbox \<Rightarrow> ('s, 'm) Imports \<Rightarrow> 'm MoltbotEnv_scheme \<Rightarrow> 's world \<Rightarrow>
     (thrown + bool) \<times> 's world" where
  "mountR2Storage sandbox im env w =
     (if notConfigured env then (Inr False, w)
      else
     (case isR2Mounted sandbox im w of
        (Inl e, w1) \<Rightarrow> (Inl e, w1)
      | (Inr True, w1) \<Rightarrow> (Inr True, w1)
      | (Inr False, w1) \<Rightarrow>
     (let bucketName = getR2BucketName im env in
      case invoke (MountBucket bucketName (R2_MOUNT_PATH im) (mountOptions env))
             (mountBucket sandbox bucketName (R2_MOUNT_PATH im) (mountOptions env)) w1 of
        (Inr _, w2) \<Rightarrow> (Inr True, w2)
      | (Inl err, w2) \<Rightarrow>
          (case errorMessage err of
             Inl e \<Rightarrow> (Inl e, w2)
           | Inr _ \<Rightarrow>
          (case isR2Mounted sandbox im w2 of
             (Inl e, w3) \<Rightarrow> (Inl e, w3)
           | (Inr True, w3) \<Rightarrow> (Inr True, w3)
           | (Inr False, w3) \<Rightarrow> (Inr False, w3))))))"

section \<open>sync.ts: the blocking sync\<close>

definition errorDetails :: "thrown \<Rightarrow> string" where
  \<comment> \<open>\<open>err instanceof Error ? err.message : 'Unknown error'\<close>\<close>
  "errorDetails err = (case err of Error m \<Rightarrow> m | _ \<Rightarrow> ''Unknown error'')"

definition probePrimaryCmd :: string where
  "probePrimaryCmd = ''test -f /root/.openclaw/openclaw.json && echo exists''"

definition probeLegacyCmd :: string where
  "probeLegacyCmd = ''test -f /root/.clawdbot/clawdbot.json && echo exists''"

definition markerReadCmd :: "string \<Rightarrow> string" where
  "markerReadCmd mp = ''cat '' @ mp @ ''/.last-sync''"

text \<open>
  \<open>syncToR2\<close> up to the loop (sync.ts lines 109 to 163). The result is \<open>Inl e\<close> for a
  throw, \<open>Inr (Inl r)\<close> for \<open>return r\<close> and \<open>Inr (Inr ())\<close> when control reaches the
  polling loop.
\<close>

definition syncToR2_launch ::
  "'s Sandbox \<Rightarrow> ('s, 'm) Imports \<Rightarrow> 'm MoltbotEnv_scheme \<Rightarrow> 's world \<Rightarrow>
     (thrown + SyncResult + unit) \<times> 's world" where
  "syncToR2_launch sandbox im env w =
     (if notConfigured env then
        (Inr (Inl \<lparr>success = False, lastSync = None,
                   error = Some ''R2 storage is not configured'', details = None\<rparr>), w)
      else
     (case mountR2Storage sandbox im env w of
        (Inl e, w1) \<Rightarrow> (Inl e, w1)
      | (Inr False, w1) \<Rightarrow>
          (Inr (Inl \<lparr>success = False, lastSync = None,
                     error = Some ''Failed to mount R2 storage'', details = None\<rparr>), w1)
      | (Inr True, w1) \<Rightarrow>
     (case
        (case runCommand sandbox im probePrimaryCmd 5000 w1 of
           (Inl err, w2) \<Rightarrow> (Inl err, w2)
         | (Inr checkNew, w2) \<Rightarrow>
             if str_includes (stdout checkNew) ''exists'' then (Inr (Inr ''/root/.openclaw''), w2)
             else
               (case runCommand sandbox im probeLegacyCmd 5000 w2 of
                  (Inl err, w3) \<Rightarrow> (Inl err, w3)
                | (Inr checkLegacy, w3) \<Rightarrow>
                    if str_includes (stdout checkLegacy) ''exists''
                    then (Inr (Inr ''/root/.clawdbot''), w3)
                    else
                      (Inr (Inl \<lparr>success = False, lastSync = None,
                                 error = Some ''Sync aborted: no config file found'',
                                 details = Some ''Neither openclaw.json nor clawdbot.json found in config directory.''\<rparr>),
                       w3)))
      of
        (Inl err, w3) \<Rightarrow>
          (Inr (Inl \<lparr>success = False, lastSync = None,
                     error = Some ''Failed to verify source files'',
                     details = Some (errorDetails err)\<rparr>), w3)
      | (Inr (Inl r), w3) \<Rightarrow> (Inr (Inl r), w3)
      | (Inr (Inr configDir), w3) \<Rightarrow>
     (let syncCmd = buildSyncCmd (R2_MOUNT_PATH im) configDir in
      case invoke (StartProcess syncCmd) (startProcess sandbox syncCmd) w3 of
        (Inl err, w4) \<Rightarrow>
          (Inr (Inl \<lparr>success = False, lastSync = None,
                     error = Some ''Sync error'', details = Some (errorDetails err)\<rparr>), w4)
      | (Inr _, w4) \<Rightarrow> (Inr (Inr ()), w4)))))"

text \<open>
  One turn of the loop (lines 168 to 177): sleep, read the marker, and either leave with
  the trimmed content (\<open>Some lastSync'\<close>) or go round again (\<open>None\<close>). A throw of the read
  is caught and ignored.
\<close>

definition pollOnce ::
  "'s Sandbox \<Rightarrow> ('s, 'm) Imports \<Rightarrow> int \<Rightarrow> 's world \<Rightarrow> string option \<times> 's world" where
  "pollOnce sandbox im pollIntervalMs w =
     (case runCommand sandbox im (markerReadCmd (R2_MOUNT_PATH im)) 10000
             (sleep im pollIntervalMs w) of
        (Inl _, w1) \<Rightarrow> (None, w1)
      | (Inr ts, w1) \<Rightarrow>
          (let lastSync' = trim (stdout ts) in
           if lastSync' \<noteq> [] \<and> matchesDatePrefix lastSync' then (Some lastSync', w1)
           else (None, w1)))"

text \<open>
  The loop itself (lines 166 to 183), from the counter \<open>i\<close> on. \<open>pollIntervalMs\<close> and
  \<open>maxPolls\<close> are taken as integers, as the callers and the defaults (2000 and 90) have
  them; the defaults are the caller's to pass.
\<close>

function syncToR2_poll ::
  "'s Sandbox \<Rightarrow> ('s, 'm) Imports \<Rightarrow> int \<Rightarrow> int \<Rightarrow> int \<Rightarrow> 's world \<Rightarrow>
     (thrown + SyncResult) \<times> 's world" where
  "syncToR2_poll sandbox im pollIntervalMs maxPolls i w =
     (if i < maxPolls then
        (case pollOnce sandbox im pollIntervalMs w of
           (Some lastSync', w1) \<Rightarrow>
             (Inr \<lparr>success = True, lastSync = Some lastSync', error = None, details = None\<rparr>, w1)
         | (None, w1) \<Rightarrow> syncToR2_poll sandbox im pollIntervalMs maxPolls (i + 1) w1)
      else
        (Inr \<lparr>success = False, lastSync = None, error = Some ''Sync timed out'',
              details = Some ''Timestamp file not created within 3 minutes''\<rparr>, w))"
  by pat_completeness auto
termination
  by (relation "measure (\<lambda>(sandbox, im, pollIntervalMs, maxPolls, i, w). nat (maxPolls - i))") auto

definition syncToR2 ::
  "'s Sandbox \<Rightarrow> ('s, 'm) Imports \<Rightarrow> 'm MoltbotEnv_scheme \<Rightarrow> int \<Rightarrow> int \<Rightarrow> 's world \<Rightarrow>
     (thrown + SyncResult) \<times> 's world" where
  "syncToR2 sandbox im env pollIntervalMs maxPolls w =
     (case syncToR2_launch sandbox im env w of
        (Inl e, w1) \<Rightarrow> (Inl e, w1)
      | (Inr (Inl r), w1) \<Rightarrow> (Inr r, w1)
      | (Inr (Inr _), w1) \<Rightarrow> syncToR2_poll sandbox im pollIntervalMs maxPolls 0 w1)"

section \<open>Observing a run\<close>

text \<open>What a list of recorded calls holds: the commands started, the sleeps, the mounts.\<close>

fun started :: "call list \<Rightarrow> string list" where
  "started [] = []"
| "started (StartProcess cmd # cs) = cmd # started cs"
| "started (_ # cs) = started cs"

fun sleeps :: "call list \<Rightarrow> int list" where
  "sleeps [] = []"
| "sleeps (SetTimeout ms # cs) = ms # sleeps cs"
| "sleeps (_ # cs) = sleeps cs"

fun mounts :: "call list \<Rightarrow> (string \<times> string \<times> MountOptions) list" where
  "mounts [] = []"
| "mounts (MountBucket b p opts # cs) = (b, p, opts) # mounts cs"
| "mounts (_ # cs) = mounts cs"

text \<open>The world \<open>k\<close> turns of the polling loop after \<open>w\<close>.\<close>

primrec pollWorld ::
  "'s Sandbox \<Rightarrow> ('s, 'm) Imports \<Rightarrow> int \<Rightarrow> nat \<Rightarrow> 's world \<Rightarrow> 's world" where
  "pollWorld sandbox im pollIntervalMs 0 w = w"
| "pollWorld sandbox im pollIntervalMs (Suc k) w =
     snd (pollOnce sandbox im pollIntervalMs (pollWorld sandbox im pollIntervalMs k w))"

section \<open>A scripted sandbox\<close>

text \<open>
  A sandbox in the manner of the mocks of sync.test.ts: the replies to successive
  \<open>startProcess\<close> calls are read off a script, and an exhausted script answers with empty
  output. It serves to run the model on concrete inputs.
\<close>

datatype reply = Prints string | Throws thrown

definition scriptedProcess :: "string \<Rightarrow> (reply list) Process" where
  "scriptedProcess out =
     \<lparr>getLogs = (\<lambda>s. (Inr \<lparr>logs_stdout = Some out, logs_stderr = Some []\<rparr>, s)),
      getStatus = None,
      proc_status = ''completed''\<rparr>"

definition scriptedSandbox :: "bool \<Rightarrow> (reply list) Sandbox" where
  "scriptedSandbox mountOk =
     \<lparr>startProcess = (\<lambda>cmd s. case s of
          [] \<Rightarrow> (Inr (scriptedProcess []), [])
        | Prints out # rest \<Rightarrow> (Inr (scriptedProcess out), rest)
        | Throws e # rest \<Rightarrow> (Inl e, rest)),
      mountBucket = (\<lambda>bucket path opts s.
          (if mountOk then Inr () else Inl (Error ''Mount failed''), s))\<rparr>"

text \<open>
  The same sandbox with a \<open>mountBucket\<close> that throws a given value, and the value thrown
  when \<open>mountBucket\<close> rejects with an object without a prototype: \<open>String\<close> of it throws
  a \<open>TypeError\<close>.
\<close>

definition throwingMountSandbox :: "thrown \<Rightarrow> (reply list) Sandbox" where
  "throwingMountSandbox e =
     (scriptedSandbox False)\<lparr>mountBucket := (\<lambda>bucket path opts s. (Inl e, s))\<rparr>"

definition typeError :: thrown where
  "typeError = Error ''Cannot convert object to primitive value''"

definition nullPrototypeObject :: thrown where
  "nullPrototypeObject = Unprintable typeError"

definition testImports :: "(reply list, unit) Imports" where
  "testImports =
     \<lparr>R2_MOUNT_PATH = ''/data/moltbot'',
      getR2BucketName = (\<lambda>env. ''moltbot-data''),
      waitForProcess = (\<lambda>proc timeoutMs s. (Inr (), s)),
      setTimeout = (\<lambda>ms s. s)\<rparr>"

definition testEnv :: MoltbotEnv where
  "testEnv = \<lparr>R2_ACCESS_KEY_ID = Some ''test-key-id'',
              R2_SECRET_ACCESS_KEY = Some ''test-secret-key'',
              CF_ACCOUNT_ID = Some ''test-account-id''\<rparr>"

definition scriptedWorld :: "reply list \<Rightarrow> (reply list) world" where
  "scriptedWorld script = \<lparr>sbState = script, calls = []\<rparr>"

text \<open>The calls of one mount check, one layout probe and one turn of the loop there.\<close>

definition mountedCalls :: "call list" where
  "mountedCalls = [StartProcess (mountCheckCmd ''/data/moltbot''), WaitForProcess 5000, GetLogs]"

definition probeCalls :: "string \<Rightarrow> call list" where
  "probeCalls cmd = [StartProcess cmd, WaitForProcess 5000, GetLogs]"

definition pollCalls :: "int \<Rightarrow> call list" where
  "pollCalls pollIntervalMs =
     [SetTimeout pollIntervalMs, StartProcess (markerReadCmd ''/data/moltbot''),
      WaitForProcess 10000, GetLogs]"

section \<open>Calls made by each operation\<close>

lemma started_append: "started (xs @ ys) = started xs @ started ys"
  by (induction xs rule: started.induct) simp_all

lemma sleeps_append: "sleeps (xs @ ys) = sleeps xs @ sleeps ys"
  by (induction xs rule: sleeps.induct) simp_all

lemma mounts_append: "mounts (xs @ ys) = mounts xs @ mounts ys"
  by (induction xs rule: mounts.induct) simp_all

lemma invoke_calls: "invoke c f w = (r, w') \<Longrightarrow> calls w' = calls w @ [c]"
  by (auto simp: invoke_def split: prod.splits)

lemma runCommand_calls:
  assumes "runCommand sandbox im cmd timeoutMs w = (r, w')"
  shows "started (calls w') = started (calls w) @ [cmd]"
    and "sleeps (calls w') = sleeps (calls w)"
    and "mounts (calls w') = mounts (calls w)"
  using assms
  by (auto simp: runCommand_def started_append sleeps_append mounts_append
      dest!: invoke_calls split: prod.splits sum.splits option.splits)

lemma isR2Mounted_calls:
  assumes "isR2Mounted sandbox im w = (r, w')"
  shows "started (calls w') = started (calls w) @ [mountCheckCmd (R2_MOUNT_PATH im)]"
    and "sleeps (calls w') = sleeps (calls w)"
    and "mounts (calls w') = mounts (calls w)"
  using assms
  by (auto simp: isR2Mounted_def started_append sleeps_append mounts_append
      dest!: invoke_calls split: prod.splits sum.splits)

lemma isR2Mounted_no_throw [simp]: "isR2Mounted sandbox im w \<noteq> (Inl e, w')"
  by (auto simp: isR2Mounted_def split: prod.splits sum.splits)

lemma mountR2Storage_throws:
  assumes "mountR2Storage sandbox im env w = (Inl e, w')"
  shows "\<not> notConfigured env \<and>
         (\<exists>w1 err s2. isR2Mounted sandbox im w = (Inr False, w1) \<and>
            mountBucket sandbox (getR2BucketName im env) (R2_MOUNT_PATH im) (mountOptions env)
              (sbState w1) = (Inl err, s2) \<and>
            errorMessage err = Inl e)"
  using assms
  by (auto simp: mountR2Storage_def Let_def invoke_def
        split: prod.splits sum.splits bool.splits if_splits)

lemma mountR2Storage_calls:
  assumes "mountR2Storage sandbox im env w = (r, w')"
  shows "sleeps (calls w') = sleeps (calls w)"
    and "\<exists>n\<le>2. started (calls w') =
            started (calls w) @ replicate n (mountCheckCmd (R2_MOUNT_PATH im))"
proof -
  show "sleeps (calls w') = sleeps (calls w)"
    using assms
    by (auto simp: mountR2Storage_def Let_def sleeps_append isR2Mounted_calls(2)
        dest!: invoke_calls split: prod.splits sum.splits bool.splits if_splits)
  have r1: "\<exists>n\<le>2::nat. [c] = replicate n c" for c :: string
    by (rule exI [of _ 1]) simp
  have r2: "\<exists>n\<le>2::nat. [c, c] = replicate n c" for c :: string
    by (rule exI [of _ 2]) (simp add: numeral_2_eq_2)
  show "\<exists>n\<le>2. started (calls w') =
            started (calls w) @ replicate n (mountCheckCmd (R2_MOUNT_PATH im))"
    using assms
    by (auto simp: mountR2Storage_def Let_def started_append isR2Mounted_calls(1) r1 r2
        dest!: invoke_calls split: prod.splits sum.splits bool.splits if_splits)
qed

lemma launch_throws:
  "syncToR2_launch sandbox im env w = (Inl e, w') \<Longrightarrow>
     mountR2Storage sandbox im env w = (Inl e, w')"
  by (auto simp: syncToR2_launch_def Let_def
        split: prod.splits sum.splits bool.splits if_splits)

lemma launch_sleeps:
  "syncToR2_launch sandbox im env w = (r, w') \<Longrightarrow> sleeps (calls w') = sleeps (calls w)"
  by (auto simp: syncToR2_launch_def Let_def sleeps_append mountR2Storage_calls(1) runCommand_calls(2)
        dest!: invoke_calls split: prod.splits sum.splits bool.splits if_splits)

lemma launch_returns_failure:
  "syncToR2_launch sandbox im env w = (Inr (Inl r), w') \<Longrightarrow>
     \<not> success r \<and> lastSync r = None \<and> error r \<noteq> None \<and> error r \<noteq> Some ''Sync timed out''"
  by (auto simp: syncToR2_launch_def Let_def
        split: prod.splits sum.splits bool.splits if_splits)

lemma pollOnce_calls:
  assumes "pollOnce sandbox im pollIntervalMs w = (r, w')"
  shows "sleeps (calls w') = sleeps (calls w) @ [pollIntervalMs]"
    and "started (calls w') = started (calls w) @ [markerReadCmd (R2_MOUNT_PATH im)]"
proof -
  obtain r1 w1 where
    rc: "runCommand sandbox im (markerReadCmd (R2_MOUNT_PATH im)) 10000
           (sleep im pollIntervalMs w) = (r1, w1)"
    by (cases "runCommand sandbox im (markerReadCmd (R2_MOUNT_PATH im)) 10000
           (sleep im pollIntervalMs w)")
  have "w' = w1"
    using assms rc by (auto simp: pollOnce_def Let_def split: sum.splits if_splits)
  then show "sleeps (calls w') = sleeps (calls w) @ [pollIntervalMs]"
    and "started (calls w') = started (calls w) @ [markerReadCmd (R2_MOUNT_PATH im)]"
    using runCommand_calls [OF rc] by (simp_all add: sleep_def sleeps_append started_append)
qed

lemma pollWorld_shift:
  "pollWorld sandbox im iv (Suc k) w = pollWorld sandbox im iv k (snd (pollOnce sandbox im iv w))"
  by (induction k) simp_all

lemma pollWorld_calls:
  "sleeps (calls (pollWorld sandbox im iv k w)) = sleeps (calls w) @ replicate k iv \<and>
   started (calls (pollWorld sandbox im iv k w)) =
     started (calls w) @ replicate k (markerReadCmd (R2_MOUNT_PATH im))"
proof (induction k)
  case 0
  show ?case by simp
next
  case (Suc k)
  obtain r w' where p: "pollOnce sandbox im iv (pollWorld sandbox im iv k w) = (r, w')"
    by (cases "pollOnce sandbox im iv (pollWorld sandbox im iv k w)")
  show ?case
    using Suc pollOnce_calls [OF p] p by (simp add: replicate_append_same)
qed

section \<open>The polling loop\<close>

declare syncToR2_poll.simps [simp del]

lemma poll_done:
  "\<not> i < maxPolls \<Longrightarrow>
   syncToR2_poll sandbox im iv maxPolls i w =
     (Inr \<lparr>success = False, lastSync = None, error = Some ''Sync timed out'',
           details = Some ''Timestamp file not created within 3 minutes''\<rparr>, w)"
  by (subst syncToR2_poll.simps) simp

lemma poll_hit:
  "i < maxPolls \<Longrightarrow> pollOnce sandbox im iv w = (Some v, w1) \<Longrightarrow>
   syncToR2_poll sandbox im iv maxPolls i w =
     (Inr \<lparr>success = True, lastSync = Some v, error = None, details = None\<rparr>, w1)"
  by (subst syncToR2_poll.simps) simp

lemma poll_miss:
  "i < maxPolls \<Longrightarrow> pollOnce sandbox im iv w = (None, w1) \<Longrightarrow>
   syncToR2_poll sandbox im iv maxPolls i w = syncToR2_poll sandbox im iv maxPolls (i + 1) w1"
  by (subst syncToR2_poll.simps) simp

lemma pollOnce_Some:
  "pollOnce sandbox im iv w = (Some v, w1) \<longleftrightarrow>
     (\<exists>ts. runCommand sandbox im (markerReadCmd (R2_MOUNT_PATH im)) 10000 (sleep im iv w) = (Inr ts, w1) \<and>
           v = trim (stdout ts) \<and> v \<noteq> [] \<and> matchesDatePrefix v)"
  by (auto simp: pollOnce_def Let_def split: prod.splits sum.splits if_splits)

lemma poll_result:
  "syncToR2_poll sandbox im iv maxPolls i w = (res, w') \<Longrightarrow>
     (\<exists>s. res = Inr \<lparr>success = True, lastSync = Some (trim s), error = None, details = None\<rparr> \<and>
          trim s \<noteq> [] \<and> matchesDatePrefix (trim s)) \<or>
     res = Inr \<lparr>success = False, lastSync = None, error = Some ''Sync timed out'',
           details = Some ''Timestamp file not created within 3 minutes''\<rparr>"
proof (induction "nat (maxPolls - i)" arbitrary: i w)
  case 0
  then have "\<not> i < maxPolls" by simp
  with "0.prems" show ?case by (simp add: poll_done)
next
  case (Suc k)
  then have lt: "i < maxPolls" by simp
  obtain r w1 where p: "pollOnce sandbox im iv w = (r, w1)"
    by (cases "pollOnce sandbox im iv w")
  show ?case
  proof (cases r)
    case None
    have "k = nat (maxPolls - (i + 1))" using Suc.hyps(2) by simp
    moreover have p': "pollOnce sandbox im iv w = (None, w1)" using p None by simp
    have "syncToR2_poll sandbox im iv maxPolls (i + 1) w1 = (res, w')"
      using Suc.prems poll_miss [OF lt p'] by simp
    ultimately show ?thesis by (rule Suc.hyps(1))
  next
    case (Some v)
    have p': "pollOnce sandbox im iv w = (Some v, w1)" using p Some by simp
    then have "\<exists>s. v = trim s \<and> v \<noteq> [] \<and> matchesDatePrefix v"
      unfolding pollOnce_Some by blast
    moreover have "res = Inr \<lparr>success = True, lastSync = Some v, error = None, details = None\<rparr>"
      using Suc.prems poll_hit [OF lt p'] by simp
    ultimately show ?thesis by auto
  qed
qed

lemma poll_bound:
  "\<exists>n. int n \<le> max 0 (maxPolls - i) \<and>
       snd (syncToR2_poll sandbox im iv maxPolls i w) = pollWorld sandbox im iv n w"
proof (induction "nat (maxPolls - i)" arbitrary: i w)
  case 0
  then have "\<not> i < maxPolls" by simp
  then have "snd (syncToR2_poll sandbox im iv maxPolls i w) = pollWorld sandbox im iv 0 w"
    by (simp add: poll_done)
  then show ?case by (intro exI [of _ 0]) simp
next
  case (Suc k)
  then have lt: "i < maxPolls" by simp
  obtain r w1 where p: "pollOnce sandbox im iv w = (r, w1)"
    by (cases "pollOnce sandbox im iv w")
  show ?case
  proof (cases r)
    case None
    have "k = nat (maxPolls - (i + 1))" using Suc.hyps(2) by simp
    from Suc.hyps(1) [OF this, of w1] obtain n where
      n: "int n \<le> max 0 (maxPolls - (i + 1))"
         "snd (syncToR2_poll sandbox im iv maxPolls (i + 1) w1) = pollWorld sandbox im iv n w1"
      by blast
    have p': "pollOnce sandbox im iv w = (None, w1)" using p None by simp
    have "snd (syncToR2_poll sandbox im iv maxPolls i w) = pollWorld sandbox im iv (Suc n) w"
      using n(2) poll_miss [OF lt p'] p' by (simp add: pollWorld_shift del: pollWorld.simps)
    moreover have "int (Suc n) \<le> max 0 (maxPolls - i)" using n(1) lt by simp
    ultimately show ?thesis by blast
  next
    case (Some v)
    have p': "pollOnce sandbox im iv w = (Some v, w1)" using p Some by simp
    have "snd (syncToR2_poll sandbox im iv maxPolls i w) = pollWorld sandbox im iv (Suc 0) w"
      using poll_hit [OF lt p'] p' by simp
    moreover have "int (Suc 0) \<le> max 0 (maxPolls - i)" using lt by simp
    ultimately show ?thesis by blast
  qed
qed

lemma poll_hit_at:
  "\<forall>j<n. fst (pollOnce sandbox im iv (pollWorld sandbox im iv j w)) = None \<Longrightarrow>
   pollOnce sandbox im iv (pollWorld sandbox im iv n w) = (Some v, w2) \<Longrightarrow>
   i + int n < maxPolls \<Longrightarrow>
   syncToR2_poll sandbox im iv maxPolls i w =
     (Inr \<lparr>success = True, lastSync = Some v, error = None, details = None\<rparr>, w2)"
proof (induction n arbitrary: i w)
  case 0
  then show ?case by (simp add: poll_hit)
next
  case (Suc n)
  let ?w1 = "snd (pollOnce sandbox im iv w)"
  have "fst (pollOnce sandbox im iv (pollWorld sandbox im iv 0 w)) = None"
    using Suc.prems(1) by blast
  then have p: "pollOnce sandbox im iv w = (None, ?w1)"
    by (simp add: prod_eq_iff)
  have lt: "i < maxPolls" using Suc.prems(3) by simp
  have a: "\<forall>j<n. fst (pollOnce sandbox im iv (pollWorld sandbox im iv j ?w1)) = None"
  proof (intro allI impI)
    fix j assume "j < n"
    then have "Suc j < Suc n" by simp
    with Suc.prems(1) have "fst (pollOnce sandbox im iv (pollWorld sandbox im iv (Suc j) w)) = None"
      by blast
    then show "fst (pollOnce sandbox im iv (pollWorld sandbox im iv j ?w1)) = None"
      by (simp only: pollWorld_shift)
  qed
  have b: "pollOnce sandbox im iv (pollWorld sandbox im iv n ?w1) = (Some v, w2)"
    using Suc.prems(2) by (simp only: pollWorld_shift)
  have c: "(i + 1) + int n < maxPolls" using Suc.prems(3) by simp
  show ?case
    using Suc.IH [OF a b c] poll_miss [OF lt p] by simp
qed

lemma poll_timeout:
  "\<forall>j. i + int j < maxPolls \<longrightarrow> fst (pollOnce sandbox im iv (pollWorld sandbox im iv j w)) = None \<Longrightarrow>
   syncToR2_poll sandbox im iv maxPolls i w =
     (Inr \<lparr>success = False, lastSync = None, error = Some ''Sync timed out'',
           details = Some ''Timestamp file not created within 3 minutes''\<rparr>,
      pollWorld sandbox im iv (nat (maxPolls - i)) w)"
proof (induction "nat (maxPolls - i)" arbitrary: i w)
  case 0
  then have "\<not> i < maxPolls" by simp
  with 0 show ?case by (simp add: poll_done)
next
  case (Suc k)
  then have lt: "i < maxPolls" by simp
  let ?w1 = "snd (pollOnce sandbox im iv w)"
  have "fst (pollOnce sandbox im iv (pollWorld sandbox im iv 0 w)) = None"
    using Suc.prems lt by (metis add.right_neutral of_nat_0)
  then have p: "pollOnce sandbox im iv w = (None, ?w1)"
    by (simp add: prod_eq_iff)
  have k: "k = nat (maxPolls - (i + 1))" using Suc.hyps(2) by simp
  have a: "\<forall>j. (i + 1) + int j < maxPolls \<longrightarrow>
             fst (pollOnce sandbox im iv (pollWorld sandbox im iv j ?w1)) = None"
  proof (intro allI impI)
    fix j assume "(i + 1) + int j < maxPolls"
    then have "i + int (Suc j) < maxPolls" by simp
    with Suc.prems have "fst (pollOnce sandbox im iv (pollWorld sandbox im iv (Suc j) w)) = None"
      by blast
    then show "fst (pollOnce sandbox im iv (pollWorld sandbox im iv j ?w1)) = None"
      by (simp only: pollWorld_shift)
  qed
  have "nat (maxPolls - i) = Suc k" using Suc.hyps(2) by simp
  then have "pollWorld sandbox im iv (nat (maxPolls - i)) w = pollWorld sandbox im iv k ?w1"
    by (simp only: pollWorld_shift)
  then show ?case
    using Suc.hyps(1) [OF k a] poll_miss [OF lt p] k by simp
qed

section \<open>Trimmed strings\<close>

lemma last_dropWhile: "dropWhile P xs \<noteq> [] \<Longrightarrow> last (dropWhile P xs) = last xs"
  by (metis last_appendR takeWhile_dropWhile_id)

lemma trim_ends:
  assumes "trim s \<noteq> []"
  shows "\<not> isSpace (hd (trim s))" and "\<not> isSpace (last (trim s))"
proof -
  let ?t = "dropWhile isSpace s"
  let ?u = "dropWhile isSpace (rev ?t)"
  have u: "?u \<noteq> []" using assms by (simp add: trim_def)
  then have t: "?t \<noteq> []" by (metis dropWhile.simps(1) rev.simps(1))
  have "last (trim s) = hd ?u" using u by (simp add: trim_def last_rev)
  then show "\<not> isSpace (last (trim s))" using hd_dropWhile [OF u] by simp
  have "hd (trim s) = last ?u" using u by (simp add: trim_def hd_rev)
  also have "\<dots> = last (rev ?t)" using u by (rule last_dropWhile)
  also have "\<dots> = hd ?t" using t by (simp add: last_rev)
  finally show "\<not> isSpace (hd (trim s))" using hd_dropWhile [OF t] by simp
qed

section \<open>Running the model on the scripted sandbox\<close>

lemmas scripted_defs =
  scriptedSandbox_def scriptedProcess_def testImports_def testEnv_def scriptedWorld_def

lemmas run_defs =
  runCommand_def isR2Mounted_def mountR2Storage_def syncToR2_launch_def pollOnce_def
  invoke_def sleep_def notConfigured_def falsy_def orEmpty_def interpolate_def mountOptions_def
  errorDetails_def trim_def isSpace_def isDigit_def

section \<open>Commands started by a run\<close>

lemma cmd_distinct [simp]:
  "probePrimaryCmd \<noteq> probeLegacyCmd"
  "mountCheckCmd mp \<noteq> probeLegacyCmd"
  "buildSyncCmd mp configDir \<noteq> probeLegacyCmd"
  "markerReadCmd mp \<noteq> probeLegacyCmd"
  "mountCheckCmd mp \<noteq> markerReadCmd mp'"
  "probePrimaryCmd \<noteq> markerReadCmd mp"
  "probeLegacyCmd \<noteq> markerReadCmd mp"
  "buildSyncCmd mp configDir \<noteq> markerReadCmd mp'"
  "buildSyncCmd mp configDir \<noteq> mountCheckCmd mp'"
  "buildSyncCmd mp configDir \<noteq> probePrimaryCmd"
  by (simp_all add: probePrimaryCmd_def probeLegacyCmd_def mountCheckCmd_def markerReadCmd_def
        buildSyncCmd_def syncSteps_def)

lemma launch_started:
  assumes "syncToR2_launch sandbox im env w = (r, w')"
  shows "\<exists>n\<le>2. \<exists>tail.
           started (calls w') =
             started (calls w) @ replicate n (mountCheckCmd (R2_MOUNT_PATH im)) @ tail \<and>
           (tail = [] \<or> tail = [probePrimaryCmd] \<or> tail = [probePrimaryCmd, probeLegacyCmd] \<or>
            tail = [probePrimaryCmd, buildSyncCmd (R2_MOUNT_PATH im) ''/root/.openclaw''] \<or>
            tail = [probePrimaryCmd, probeLegacyCmd,
                    buildSyncCmd (R2_MOUNT_PATH im) ''/root/.clawdbot''])"
proof (cases "notConfigured env")
  case True
  then have "w' = w" using assms by (simp add: syncToR2_launch_def)
  then show ?thesis by (intro exI [of _ 0]) simp
next
  case False
  obtain mr w1 where m: "mountR2Storage sandbox im env w = (mr, w1)"
    by (cases "mountR2Storage sandbox im env w")
  from mountR2Storage_calls(2) [OF m] obtain n where
    n: "n \<le> 2" "started (calls w1) =
          started (calls w) @ replicate n (mountCheckCmd (R2_MOUNT_PATH im))"
    by blast
  have "\<exists>tail. started (calls w') = started (calls w1) @ tail \<and>
           (tail = [] \<or> tail = [probePrimaryCmd] \<or> tail = [probePrimaryCmd, probeLegacyCmd] \<or>
            tail = [probePrimaryCmd, buildSyncCmd (R2_MOUNT_PATH im) ''/root/.openclaw''] \<or>
            tail = [probePrimaryCmd, probeLegacyCmd,
                    buildSyncCmd (R2_MOUNT_PATH im) ''/root/.clawdbot''])"
    using assms False m
    by (auto simp: syncToR2_launch_def Let_def started_append runCommand_calls(1)
          dest!: invoke_calls split: prod.splits sum.splits bool.splits if_splits)
  then show ?thesis using n by auto
qed

lemma launch_no_marker_read:
  assumes "syncToR2_launch sandbox im env w = (r, w')"
  shows "\<exists>pre. started (calls w') = started (calls w) @ pre \<and>
               markerReadCmd (R2_MOUNT_PATH im) \<notin> set pre"
proof -
  from launch_started [OF assms] obtain n tail where
    s: "started (calls w') =
          started (calls w) @ replicate n (mountCheckCmd (R2_MOUNT_PATH im)) @ tail"
    and t: "tail = [] \<or> tail = [probePrimaryCmd] \<or> tail = [probePrimaryCmd, probeLegacyCmd] \<or>
            tail = [probePrimaryCmd, buildSyncCmd (R2_MOUNT_PATH im) ''/root/.openclaw''] \<or>
            tail = [probePrimaryCmd, probeLegacyCmd,
                    buildSyncCmd (R2_MOUNT_PATH im) ''/root/.clawdbot'']"
    by blast
  have "markerReadCmd (R2_MOUNT_PATH im) \<notin> set (replicate n (mountCheckCmd (R2_MOUNT_PATH im)) @ tail)"
    using t by (auto simp: cmd_distinct [THEN not_sym])
  with s show ?thesis by blast
qed

lemma syncToR2_world:
  "\<exists>m. int m \<le> max 0 maxPolls \<and>
       snd (syncToR2 sandbox im env pollIntervalMs maxPolls w) =
         pollWorld sandbox im pollIntervalMs m (snd (syncToR2_launch sandbox im env w))"
proof -
  obtain l w0 where l: "syncToR2_launch sandbox im env w = (l, w0)"
    by (cases "syncToR2_launch sandbox im env w")
  from poll_bound [of maxPolls 0 sandbox im pollIntervalMs w0] obtain n where
    n: "int n \<le> max 0 maxPolls"
       "snd (syncToR2_poll sandbox im pollIntervalMs maxPolls 0 w0) =
          pollWorld sandbox im pollIntervalMs n w0"
    by auto
  show ?thesis
  proof (cases l)
    case (Inl e)
    then have "snd (syncToR2 sandbox im env pollIntervalMs maxPolls w) =
        pollWorld sandbox im pollIntervalMs 0 w0"
      using l by (simp add: syncToR2_def)
    then show ?thesis using l by (intro exI [of _ 0]) simp
  next
    case (Inr x)
    show ?thesis
    proof (cases x)
      case (Inl early)
      then have "snd (syncToR2 sandbox im env pollIntervalMs maxPolls w) =
          pollWorld sandbox im pollIntervalMs 0 w0"
        using l Inr by (simp add: syncToR2_def)
      then show ?thesis using l by (intro exI [of _ 0]) simp
    next
      case (Inr u)
      then have "snd (syncToR2 sandbox im env pollIntervalMs maxPolls w) =
          pollWorld sandbox im pollIntervalMs n w0"
        using l \<open>l = Inr x\<close> n(2) by (simp add: syncToR2_def)
      with n(1) l show ?thesis by auto
    qed
  qed
qed

lemma legacy_after_primary:
  assumes "tail = [] \<or> tail = [probePrimaryCmd] \<or> tail = [probePrimaryCmd, probeLegacyCmd] \<or>
           tail = [probePrimaryCmd, buildSyncCmd mp ''/root/.openclaw''] \<or>
           tail = [probePrimaryCmd, probeLegacyCmd, buildSyncCmd mp ''/root/.clawdbot'']"
    and "probeLegacyCmd \<in> set (replicate n (mountCheckCmd mp) @ tail @ replicate k (markerReadCmd mp))"
  shows "probePrimaryCmd \<in> set (takeWhile (\<lambda>c. c \<noteq> probeLegacyCmd)
           (replicate n (mountCheckCmd mp) @ tail @ replicate k (markerReadCmd mp)))"
proof -
  have tw: "takeWhile (\<lambda>c. c \<noteq> probeLegacyCmd) (replicate n (mountCheckCmd mp) @ rest) =
      replicate n (mountCheckCmd mp) @ takeWhile (\<lambda>c. c \<noteq> probeLegacyCmd) rest" for rest
    by (rule takeWhile_append2) simp
  have "tail = [probePrimaryCmd, probeLegacyCmd] \<or>
        tail = [probePrimaryCmd, probeLegacyCmd, buildSyncCmd mp ''/root/.clawdbot'']"
    using assms by (auto simp: cmd_distinct [THEN not_sym])
  then show ?thesis unfolding tw by auto
qed

section \<open>The shell reading agrees with the string\<close>

lemmas shell_defs =
  syncAndList_def syncStepCmds_def configMirrorCmd_def workspaceMirrorCmd_def skillsMirrorCmd_def
  markerWriteCmd_def buildSyncCmd_def syncSteps_def

lemma render_steps: "map render (syncStepCmds mp configDir) = syncSteps mp configDir"
  by (simp add: shell_defs)

lemma render_syncCmd: "render (syncAndList mp configDir) = buildSyncCmd mp configDir"
  by (simp add: shell_defs)

lemma steps23_succeed:
  "fst (runShell ok (syncStepCmds mp configDir ! 1)) \<and> fst (runShell ok (syncStepCmds mp configDir ! 2))"
  by (simp add: syncStepCmds_def split: prod.splits bool.splits)

lemma marker_iff:
  "markerWriteCmd mp \<in> set (snd (runShell ok (syncAndList mp configDir))) \<longleftrightarrow> ok (configMirrorCmd mp configDir)"
  by (simp add: shell_defs split: prod.splits bool.splits)

section \<open>Runs on the scripted sandbox\<close>

lemma testImports_simps:
  "R2_MOUNT_PATH testImports = ''/data/moltbot''"
  "getR2BucketName testImports env = ''moltbot-data''"
  "waitForProcess testImports proc t s = (Inr (), s)"
  "setTimeout testImports ms s = s"
  by (simp_all add: testImports_def)

lemma scripted_run:
  "runCommand (scriptedSandbox mountOk) testImports cmd t \<lparr>sbState = Prints out # rest, calls = cs\<rparr> =
     (Inr \<lparr>stdout = out, stderr = [], status = ''completed''\<rparr>,
      \<lparr>sbState = rest, calls = cs @ [StartProcess cmd, WaitForProcess t, GetLogs]\<rparr>)"
  by (simp add: scripted_defs runCommand_def invoke_def orEmpty_def)

lemma scripted_throw:
  "runCommand (scriptedSandbox mountOk) testImports cmd t \<lparr>sbState = Throws e # rest, calls = cs\<rparr> =
     (Inl e, \<lparr>sbState = rest, calls = cs @ [StartProcess cmd]\<rparr>)"
  by (simp add: scripted_defs runCommand_def invoke_def)

lemma scripted_mounted:
  "mountR2Storage (scriptedSandbox mountOk) testImports testEnv
     (scriptedWorld (Prints ''mounted\<newline>'' # rest)) =
     (Inr True, \<lparr>sbState = rest, calls = mountedCalls\<rparr>)"
  by (simp add: scripted_defs run_defs mountedCalls_def)

lemma testEnv_configured: "\<not> notConfigured testEnv"
  by (simp add: notConfigured_def falsy_def testEnv_def)

lemma scripted_launch:
  "syncToR2_launch (scriptedSandbox True) testImports testEnv
     (scriptedWorld (Prints ''mounted\<newline>'' # Prints ''exists'' # Prints [] # rest))
   = (Inr (Inr ()), \<lparr>sbState = rest,
       calls = mountedCalls @ probeCalls probePrimaryCmd @
               [StartProcess (buildSyncCmd ''/data/moltbot'' ''/root/.openclaw'')]\<rparr>)"
  by (simp add: scripted_defs run_defs probePrimaryCmd_def mountedCalls_def probeCalls_def)

lemma scripted_miss:
  "\<not> (trim out \<noteq> [] \<and> matchesDatePrefix (trim out)) \<Longrightarrow>
   pollOnce (scriptedSandbox True) testImports iv \<lparr>sbState = Prints out # rest, calls = cs\<rparr>
     = (None, \<lparr>sbState = rest, calls = cs @ pollCalls iv\<rparr>)"
  by (auto simp: scripted_defs runCommand_def pollOnce_def invoke_def sleep_def orEmpty_def
        markerReadCmd_def pollCalls_def)

lemma scripted_hit:
  "trim out \<noteq> [] \<Longrightarrow> matchesDatePrefix (trim out) \<Longrightarrow>
   pollOnce (scriptedSandbox True) testImports iv \<lparr>sbState = Prints out # rest, calls = cs\<rparr>
     = (Some (trim out), \<lparr>sbState = rest, calls = cs @ pollCalls iv\<rparr>)"
  by (auto simp: scripted_defs runCommand_def pollOnce_def invoke_def sleep_def orEmpty_def
        markerReadCmd_def pollCalls_def)

lemma scripted_exhausted:
  "pollOnce (scriptedSandbox True) testImports iv \<lparr>sbState = [], calls = cs\<rparr>
     = (None, \<lparr>sbState = [], calls = cs @ pollCalls iv\<rparr>)"
  by (simp add: scripted_defs runCommand_def pollOnce_def invoke_def sleep_def orEmpty_def
        markerReadCmd_def pollCalls_def trim_def)

lemma scripted_exhausted_world:
  "\<exists>cs'. pollWorld (scriptedSandbox True) testImports iv j \<lparr>sbState = [], calls = cs\<rparr> =
          \<lparr>sbState = [], calls = cs'\<rparr>"
proof (induction j)
  case 0
  show ?case by simp
next
  case (Suc j)
  then obtain cs' where
    "pollWorld (scriptedSandbox True) testImports iv j \<lparr>sbState = [], calls = cs\<rparr> =
       \<lparr>sbState = [], calls = cs'\<rparr>"
    by blast
  then show ?case by (simp add: scripted_exhausted)
qed

section \<open>The handler of the mount\<close>

text \<open>
  When \<open>mountBucket\<close> throws a value that has a message (an \<open>Error\<close>, or a value that
  \<open>String\<close> converts), the mount table is checked once more and the result is what that
  check says.
\<close>

lemma mountR2Storage_recheck_after_throw:
  assumes "\<not> notConfigured env"
    and "isR2Mounted sandbox im w = (Inr False, w1)"
    and "mountBucket sandbox (getR2BucketName im env) (R2_MOUNT_PATH im) (mountOptions env)
           (sbState w1) = (Inl err, s2)"
    and "errorMessage err = Inr msg"
    and "isR2Mounted sandbox im
           \<lparr>sbState = s2,
            calls = calls w1 @ [MountBucket (getR2BucketName im env) (R2_MOUNT_PATH im)
                                  (mountOptions env)]\<rparr> = (Inr rechecked, w3)"
  shows "mountR2Storage sandbox im env w = (Inr rechecked, w3) \<and>
         started (calls w3) =
           started (calls w) @ [mountCheckCmd (R2_MOUNT_PATH im), mountCheckCmd (R2_MOUNT_PATH im)] \<and>
         mounts (calls w3) =
           mounts (calls w) @ [(getR2BucketName im env, R2_MOUNT_PATH im, mountOptions env)]"
proof -
  have "mountR2Storage sandbox im env w = (Inr rechecked, w3)"
    using assms by (cases rechecked) (simp_all add: mountR2Storage_def invoke_def)
  moreover have "started (calls w3) =
      started (calls w) @ [mountCheckCmd (R2_MOUNT_PATH im), mountCheckCmd (R2_MOUNT_PATH im)]"
    using isR2Mounted_calls(1) [OF assms(2)] isR2Mounted_calls(1) [OF assms(5)]
    by (simp add: started_append)
  moreover have "mounts (calls w3) =
      mounts (calls w) @ [(getR2BucketName im env, R2_MOUNT_PATH im, mountOptions env)]"
    using isR2Mounted_calls(3) [OF assms(2)] isR2Mounted_calls(3) [OF assms(5)]
    by (simp add: mounts_append)
  ultimately show ?thesis by simp
qed

text \<open>
  \<open>syncToR2\<close> throws only what \<open>mountR2Storage\<close> throws, and that only when the first mount
  check says unmounted and \<open>mountBucket\<close> throws a value whose conversion to a string
  throws (\<open>mountR2Storage_throws\<close>).
\<close>

lemma syncToR2_throws:
  assumes "fst (syncToR2 sandbox im env pollIntervalMs maxPolls w) = Inl e"
  shows "\<exists>w'. mountR2Storage sandbox im env w = (Inl e, w')"
proof -
  obtain l w1 where l: "syncToR2_launch sandbox im env w = (l, w1)"
    by (cases "syncToR2_launch sandbox im env w")
  obtain p w2 where p: "syncToR2_poll sandbox im pollIntervalMs maxPolls 0 w1 = (p, w2)"
    by (cases "syncToR2_poll sandbox im pollIntervalMs maxPolls 0 w1")
  from poll_result [OF p] have "\<exists>r. p = Inr r" by blast
  then have "l = Inl e"
    using assms l p by (cases l) (auto simp: syncToR2_def split: sum.splits)
  with l launch_throws show ?thesis by blast
qed

section \<open>The claims\<close>

text \<open>
  C1, as amended. The command built by \<open>buildSyncCmd\<close> is its four steps (config mirror,
  conditional workspace mirror, conditional skills mirror, timestamp write) joined by
  \<open>&&\<close>, and it is the text of the AND list \<open>syncAndList\<close>. In every run of that list,
  whatever the simple commands do, the write to \<open>.last-sync\<close> is among the commands run
  exactly when the config mirror of step 1 succeeds: a failure of step 1 prevents it.
  Steps 2 and 3 are subshells that end in \<open>|| true\<close>; as list elements they always
  succeed, so neither a missing directory nor a failing workspace or skills mirror stops
  the list.
\<close>

theorem buildSyncCmd_and_list:
  "buildSyncCmd mp configDir = join '' && '' (map render (syncStepCmds mp configDir)) \<and>
   render (syncAndList mp configDir) = buildSyncCmd mp configDir \<and>
   length (syncStepCmds mp configDir) = 4 \<and>
   syncStepCmds mp configDir ! 3 = Simple (markerWriteCmd mp) \<and>
   (\<forall>ok. (markerWriteCmd mp \<in> set (snd (runShell ok (syncAndList mp configDir)))) =
           ok (configMirrorCmd mp configDir)) \<and>
   (\<forall>ok. fst (runShell ok (syncStepCmds mp configDir ! 1)) \<and>
         fst (runShell ok (syncStepCmds mp configDir ! 2)))"
proof -
  have "length (syncStepCmds mp configDir) = 4"
    and "syncStepCmds mp configDir ! 3 = Simple (markerWriteCmd mp)"
    by (simp_all add: syncStepCmds_def)
  moreover have "buildSyncCmd mp configDir = join '' && '' (map render (syncStepCmds mp configDir))"
    by (simp only: render_steps buildSyncCmd_def)
  ultimately show ?thesis
    using render_syncCmd [of mp configDir] marker_iff [of mp _ configDir]
      steps23_succeed [of _ mp configDir]
    by blast
qed

theorem buildSyncCmd_and_list_witness:
  "\<not> succeedsExcept [configMirrorCmd ''/data/moltbot'' ''/root/.openclaw'']
       (configMirrorCmd ''/data/moltbot'' ''/root/.openclaw'') \<and>
   snd (runShell (succeedsExcept [configMirrorCmd ''/data/moltbot'' ''/root/.openclaw''])
          (syncAndList ''/data/moltbot'' ''/root/.openclaw'')) =
     [configMirrorCmd ''/data/moltbot'' ''/root/.openclaw''] \<and>
   markerWriteCmd ''/data/moltbot'' \<notin>
     set (snd (runShell (succeedsExcept [configMirrorCmd ''/data/moltbot'' ''/root/.openclaw''])
                 (syncAndList ''/data/moltbot'' ''/root/.openclaw'')))"
proof -
  let ?ok = "succeedsExcept [configMirrorCmd ''/data/moltbot'' ''/root/.openclaw'']"
  have f: "\<not> ?ok (configMirrorCmd ''/data/moltbot'' ''/root/.openclaw'')"
    by (simp add: succeedsExcept_def)
  with buildSyncCmd_and_list [of "''/data/moltbot''" "''/root/.openclaw''"]
  have "markerWriteCmd ''/data/moltbot'' \<notin>
     set (snd (runShell ?ok (syncAndList ''/data/moltbot'' ''/root/.openclaw'')))"
    by blast
  moreover have "snd (runShell ?ok (syncAndList ''/data/moltbot'' ''/root/.openclaw'')) =
     [configMirrorCmd ''/data/moltbot'' ''/root/.openclaw'']"
    by (simp add: syncAndList_def syncStepCmds_def succeedsExcept_def)
  ultimately show ?thesis using f by simp
qed

text \<open>
  C1 as stated fails: the workspace directory is there, the workspace mirror of step 2
  runs and fails, every other command succeeds, and the write to \<open>.last-sync\<close> of step 4
  runs all the same, \<open>true\<close> having run after the failed mirror.
\<close>

theorem buildSyncCmd_masked_failure_counterexample:
  "\<not> succeedsExcept [workspaceMirrorCmd ''/data/moltbot''] (workspaceMirrorCmd ''/data/moltbot'') \<and>
   runShell (succeedsExcept [workspaceMirrorCmd ''/data/moltbot''])
     (syncAndList ''/data/moltbot'' ''/root/.openclaw'') =
     (True,
      [configMirrorCmd ''/data/moltbot'' ''/root/.openclaw'',
       ''[ -d /root/clawd ]'', workspaceMirrorCmd ''/data/moltbot'', ''true'',
       ''[ -d /root/clawd/skills ]'', skillsMirrorCmd ''/data/moltbot'',
       markerWriteCmd ''/data/moltbot''])"
  by (simp add: syncAndList_def syncStepCmds_def succeedsExcept_def configMirrorCmd_def
        workspaceMirrorCmd_def skillsMirrorCmd_def markerWriteCmd_def)

text \<open>
  C2. Every run of \<open>syncToR2\<close> sleeps \<open>n\<close> times, each time for \<open>pollIntervalMs\<close>, and
  reads the marker \<open>n\<close> times, with \<open>n\<close> at most \<open>maxPolls\<close> (none when \<open>maxPolls\<close> is
  negative); the part of the run before the loop reads no marker and does not sleep. If
  the loop is reached in world \<open>w1\<close>, the first \<open>k - 1\<close> turns go round again and the read
  of turn \<open>k\<close> (with \<open>k\<close> at most \<open>maxPolls\<close>) gives an output whose trimmed value is not
  empty and starts with a date, then \<open>syncToR2\<close> returns success with that value in the
  world just after that read, after exactly \<open>k\<close> sleeps of \<open>pollIntervalMs\<close> and \<open>k\<close>
  reads since \<open>w1\<close>.
\<close>

theorem syncToR2_polling:
  "(\<exists>n pre. int n \<le> max 0 maxPolls \<and>
      sleeps (calls (snd (syncToR2 sandbox im env pollIntervalMs maxPolls w))) =
        sleeps (calls w) @ replicate n pollIntervalMs \<and>
      started (calls (snd (syncToR2 sandbox im env pollIntervalMs maxPolls w))) =
        started (calls w) @ pre @ replicate n (markerReadCmd (R2_MOUNT_PATH im)) \<and>
      markerReadCmd (R2_MOUNT_PATH im) \<notin> set pre) \<and>
   (syncToR2_launch sandbox im env w = (Inr (Inr ()), w1) \<and> 0 < k \<and> int k \<le> maxPolls \<and>
    (\<forall>j<k - 1. fst (pollOnce sandbox im pollIntervalMs
                      (pollWorld sandbox im pollIntervalMs j w1)) = None) \<and>
    runCommand sandbox im (markerReadCmd (R2_MOUNT_PATH im)) 10000
      (sleep im pollIntervalMs (pollWorld sandbox im pollIntervalMs (k - 1) w1)) = (Inr ts, w2) \<and>
    trim (stdout ts) \<noteq> [] \<and> matchesDatePrefix (trim (stdout ts)) \<longrightarrow>
      syncToR2 sandbox im env pollIntervalMs maxPolls w =
        (Inr \<lparr>success = True, lastSync = Some (trim (stdout ts)), error = None, details = None\<rparr>,
         w2) \<and>
      sleeps (calls w2) = sleeps (calls w) @ replicate k pollIntervalMs \<and>
      started (calls w2) = started (calls w1) @ replicate k (markerReadCmd (R2_MOUNT_PATH im)))"
proof (intro conjI impI)
  let ?R = "markerReadCmd (R2_MOUNT_PATH im)"
  obtain l w0 where l: "syncToR2_launch sandbox im env w = (l, w0)"
    by (cases "syncToR2_launch sandbox im env w")
  from launch_no_marker_read [OF l] obtain pre where
    pre: "started (calls w0) = started (calls w) @ pre" "?R \<notin> set pre"
    by blast
  have sl: "sleeps (calls w0) = sleeps (calls w)" by (rule launch_sleeps [OF l])
  from syncToR2_world [of maxPolls sandbox im env pollIntervalMs w] l obtain m where
    m: "int m \<le> max 0 maxPolls"
       "snd (syncToR2 sandbox im env pollIntervalMs maxPolls w) =
          pollWorld sandbox im pollIntervalMs m w0"
    by auto
  have "sleeps (calls (snd (syncToR2 sandbox im env pollIntervalMs maxPolls w))) =
          sleeps (calls w) @ replicate m pollIntervalMs"
    and "started (calls (snd (syncToR2 sandbox im env pollIntervalMs maxPolls w))) =
          started (calls w) @ pre @ replicate m ?R"
    using pollWorld_calls [of sandbox im pollIntervalMs m w0] m(2) sl pre(1) by simp_all
  with m(1) pre(2)
  show "\<exists>n pre. int n \<le> max 0 maxPolls \<and>
      sleeps (calls (snd (syncToR2 sandbox im env pollIntervalMs maxPolls w))) =
        sleeps (calls w) @ replicate n pollIntervalMs \<and>
      started (calls (snd (syncToR2 sandbox im env pollIntervalMs maxPolls w))) =
        started (calls w) @ pre @ replicate n ?R \<and> ?R \<notin> set pre"
    by blast
next
  let ?R = "markerReadCmd (R2_MOUNT_PATH im)"
  assume h: "syncToR2_launch sandbox im env w = (Inr (Inr ()), w1) \<and> 0 < k \<and> int k \<le> maxPolls \<and>
    (\<forall>j<k - 1. fst (pollOnce sandbox im pollIntervalMs
                      (pollWorld sandbox im pollIntervalMs j w1)) = None) \<and>
    runCommand sandbox im ?R 10000
      (sleep im pollIntervalMs (pollWorld sandbox im pollIntervalMs (k - 1) w1)) = (Inr ts, w2) \<and>
    trim (stdout ts) \<noteq> [] \<and> matchesDatePrefix (trim (stdout ts))"
  then have once: "pollOnce sandbox im pollIntervalMs (pollWorld sandbox im pollIntervalMs (k - 1) w1) =
      (Some (trim (stdout ts)), w2)"
    unfolding pollOnce_Some by blast
  have lt: "0 + int (k - 1) < maxPolls" using h by auto
  have misses: "\<forall>j<k - 1. fst (pollOnce sandbox im pollIntervalMs
                      (pollWorld sandbox im pollIntervalMs j w1)) = None"
    using h by blast
  have hit: "syncToR2_poll sandbox im pollIntervalMs maxPolls 0 w1 =
      (Inr \<lparr>success = True, lastSync = Some (trim (stdout ts)), error = None, details = None\<rparr>, w2)"
    by (rule poll_hit_at [OF misses once lt])
  have k: "Suc (k - 1) = k" using h by simp
  have "pollWorld sandbox im pollIntervalMs (Suc (k - 1)) w1 = w2"
    using once by simp
  then have w2: "w2 = pollWorld sandbox im pollIntervalMs k w1" by (simp only: k)
  have l: "syncToR2_launch sandbox im env w = (Inr (Inr ()), w1)" using h by blast
  show "syncToR2 sandbox im env pollIntervalMs maxPolls w =
        (Inr \<lparr>success = True, lastSync = Some (trim (stdout ts)), error = None, details = None\<rparr>,
         w2)"
    using l hit by (simp add: syncToR2_def)
  show "sleeps (calls w2) = sleeps (calls w) @ replicate k pollIntervalMs"
    using pollWorld_calls [of sandbox im pollIntervalMs k w1] launch_sleeps [OF l] w2 by simp
  show "started (calls w2) = started (calls w1) @ replicate k ?R"
    using pollWorld_calls [of sandbox im pollIntervalMs k w1] w2 by simp
qed

theorem syncToR2_polling_witness:
  "syncToR2_launch (scriptedSandbox True) testImports testEnv
     (scriptedWorld [Prints ''mounted\<newline>'', Prints ''exists'', Prints [], Prints [],
                     Prints ''2026-01-27T12:00:00+00:00'']) =
     (Inr (Inr ()),
      \<lparr>sbState = [Prints [], Prints ''2026-01-27T12:00:00+00:00''],
       calls = mountedCalls @ probeCalls probePrimaryCmd @
               [StartProcess (buildSyncCmd ''/data/moltbot'' ''/root/.openclaw'')]\<rparr>) \<and>
   fst (pollOnce (scriptedSandbox True) testImports 10
     \<lparr>sbState = [Prints [], Prints ''2026-01-27T12:00:00+00:00''],
      calls = mountedCalls @ probeCalls probePrimaryCmd @
              [StartProcess (buildSyncCmd ''/data/moltbot'' ''/root/.openclaw'')]\<rparr>) = None \<and>
   syncToR2 (scriptedSandbox True) testImports testEnv 10 3
     (scriptedWorld [Prints ''mounted\<newline>'', Prints ''exists'', Prints [], Prints [],
                     Prints ''2026-01-27T12:00:00+00:00'']) =
     (Inr \<lparr>success = True, lastSync = Some ''2026-01-27T12:00:00+00:00'', error = None,
           details = None\<rparr>,
      \<lparr>sbState = [],
       calls = mountedCalls @ probeCalls probePrimaryCmd @
               [StartProcess (buildSyncCmd ''/data/moltbot'' ''/root/.openclaw'')] @
               pollCalls 10 @ pollCalls 10\<rparr>) \<and>
   sleeps (mountedCalls @ probeCalls probePrimaryCmd @
           [StartProcess (buildSyncCmd ''/data/moltbot'' ''/root/.openclaw'')] @
           pollCalls 10 @ pollCalls 10) = [10, 10]"
proof -
  let ?script = "[Prints ''mounted\<newline>'', Prints ''exists'', Prints [], Prints [],
                     Prints ''2026-01-27T12:00:00+00:00'']"
  let ?L = "mountedCalls @ probeCalls probePrimaryCmd @
               [StartProcess (buildSyncCmd ''/data/moltbot'' ''/root/.openclaw'')]"
  let ?W1 = "\<lparr>sbState = [Prints [], Prints ''2026-01-27T12:00:00+00:00''], calls = ?L\<rparr>"
  let ?W2 = "\<lparr>sbState = [], calls = ?L @ pollCalls 10 @ pollCalls 10\<rparr>"
  let ?ts = "\<lparr>stdout = ''2026-01-27T12:00:00+00:00'', stderr = [], status = ''completed''\<rparr>"
  have tr: "trim ''2026-01-27T12:00:00+00:00'' = ''2026-01-27T12:00:00+00:00''"
    by (simp add: trim_def isSpace_def)
  have l: "syncToR2_launch (scriptedSandbox True) testImports testEnv (scriptedWorld ?script) =
      (Inr (Inr ()), ?W1)"
    by (rule scripted_launch)
  have m: "pollOnce (scriptedSandbox True) testImports 10 ?W1 =
      (None, \<lparr>sbState = [Prints ''2026-01-27T12:00:00+00:00''], calls = ?L @ pollCalls 10\<rparr>)"
    by (rule scripted_miss) (simp add: trim_def)
  have h: "syncToR2_launch (scriptedSandbox True) testImports testEnv (scriptedWorld ?script) =
             (Inr (Inr ()), ?W1) \<and> 0 < Suc (Suc 0) \<and> int (Suc (Suc 0)) \<le> 3 \<and>
    (\<forall>j<Suc (Suc 0) - 1. fst (pollOnce (scriptedSandbox True) testImports 10
                      (pollWorld (scriptedSandbox True) testImports 10 j ?W1)) = None) \<and>
    runCommand (scriptedSandbox True) testImports (markerReadCmd (R2_MOUNT_PATH testImports)) 10000
      (sleep testImports 10 (pollWorld (scriptedSandbox True) testImports 10 (Suc (Suc 0) - 1) ?W1)) =
      (Inr ?ts, ?W2) \<and>
    trim (stdout ?ts) \<noteq> [] \<and> matchesDatePrefix (trim (stdout ?ts))"
    by (simp add: l m tr scripted_run sleep_def testImports_simps pollCalls_def isDigit_def)
  from syncToR2_polling
    [where sandbox = "scriptedSandbox True" and im = testImports and env = testEnv
       and w = "scriptedWorld ?script" and ?w1.0 = ?W1 and k = "Suc (Suc 0)" and maxPolls = 3
       and pollIntervalMs = 10 and ts = ?ts and ?w2.0 = ?W2, THEN conjunct2, THEN mp, OF h]
  show ?thesis
    using l m by (simp add: tr) (simp add: mountedCalls_def probeCalls_def pollCalls_def)
qed

text \<open>
  C3, as amended. At every turn of the polling loop, a marker read whose output, once
  trimmed, is not empty and starts with four digits, a hyphen, two digits, a hyphen and
  two digits makes \<open>syncToR2\<close> return at once, in the world just after the read, with
  success and the trimmed output as \<open>lastSync\<close>.
\<close>

theorem syncToR2_poll_accepts_dated_marker:
  assumes "i < maxPolls"
    and "runCommand sandbox im (markerReadCmd (R2_MOUNT_PATH im)) 10000
           (sleep im pollIntervalMs w) = (Inr ts, w1)"
    and "trim (stdout ts) \<noteq> []"
    and "matchesDatePrefix (trim (stdout ts))"
  shows "syncToR2_poll sandbox im pollIntervalMs maxPolls i w =
           (Inr \<lparr>success = True, lastSync = Some (trim (stdout ts)), error = None,
                 details = None\<rparr>, w1)"
proof -
  have "pollOnce sandbox im pollIntervalMs w = (Some (trim (stdout ts)), w1)"
    unfolding pollOnce_Some using assms(2-4) by blast
  with assms(1) show ?thesis by (rule poll_hit)
qed

theorem syncToR2_poll_accepts_dated_marker_witness:
  "(0::int) < 90 \<and>
   runCommand (scriptedSandbox True) testImports (markerReadCmd (R2_MOUNT_PATH testImports)) 10000
     (sleep testImports 2000 (scriptedWorld [Prints ''  2026-01-27T12:00:00+00:00\<newline>''])) =
     (Inr \<lparr>stdout = ''  2026-01-27T12:00:00+00:00\<newline>'', stderr = [], status = ''completed''\<rparr>,
      \<lparr>sbState = [],
       calls = [SetTimeout 2000, StartProcess (markerReadCmd ''/data/moltbot''),
                WaitForProcess 10000, GetLogs]\<rparr>) \<and>
   syncToR2_poll (scriptedSandbox True) testImports 2000 90 0
     (scriptedWorld [Prints ''  2026-01-27T12:00:00+00:00\<newline>'']) =
     (Inr \<lparr>success = True, lastSync = Some ''2026-01-27T12:00:00+00:00'', error = None,
           details = None\<rparr>,
      \<lparr>sbState = [],
       calls = [SetTimeout 2000, StartProcess (markerReadCmd ''/data/moltbot''),
                WaitForProcess 10000, GetLogs]\<rparr>)"
proof -
  have lt: "(0::int) < 90" by simp
  have rd: "runCommand (scriptedSandbox True) testImports (markerReadCmd (R2_MOUNT_PATH testImports))
      10000 (sleep testImports 2000 (scriptedWorld [Prints ''  2026-01-27T12:00:00+00:00\<newline>''])) =
     (Inr \<lparr>stdout = ''  2026-01-27T12:00:00+00:00\<newline>'', stderr = [], status = ''completed''\<rparr>,
      \<lparr>sbState = [],
       calls = [SetTimeout 2000, StartProcess (markerReadCmd ''/data/moltbot''),
                WaitForProcess 10000, GetLogs]\<rparr>)"
    by (simp add: scripted_defs run_defs)
  have tr: "trim (stdout \<lparr>stdout = ''  2026-01-27T12:00:00+00:00\<newline>'', stderr = [],
                           status = ''completed''\<rparr>) = ''2026-01-27T12:00:00+00:00''"
    by (simp add: trim_def isSpace_def)
  have ne: "trim (stdout \<lparr>stdout = ''  2026-01-27T12:00:00+00:00\<newline>'', stderr = [],
                           status = ''completed''\<rparr>) \<noteq> []"
    by (simp only: tr) simp
  have mt: "matchesDatePrefix (trim (stdout \<lparr>stdout = ''  2026-01-27T12:00:00+00:00\<newline>'',
                           stderr = [], status = ''completed''\<rparr>))"
    by (simp only: tr) (simp add: isDigit_def)
  show ?thesis
    using syncToR2_poll_accepts_dated_marker [OF lt rd ne mt] rd by (simp only: tr) simp
qed

text \<open>
  C3 as stated fails: the marker content \<open>2026-01\<close> is not empty and matches four digits,
  a hyphen and two digits, yet the turn that reads it goes round again, and a run that
  reads nothing else ends timed out.
\<close>

theorem syncToR2_year_month_marker_counterexample:
  "''2026-01'' \<noteq> [] \<and> matchesYearMonthPrefix ''2026-01'' \<and>
   fst (pollOnce (scriptedSandbox True) testImports 10 (scriptedWorld [Prints ''2026-01''])) = None \<and>
   fst (syncToR2 (scriptedSandbox True) testImports testEnv 10 2
     (scriptedWorld [Prints ''mounted\<newline>'', Prints ''exists'', Prints [],
                     Prints ''2026-01'', Prints ''2026-01''])) =
     Inr \<lparr>success = False, lastSync = None, error = Some ''Sync timed out'',
          details = Some ''Timestamp file not created within 3 minutes''\<rparr>"
proof -
  have m: "\<not> (trim ''2026-01'' \<noteq> [] \<and> matchesDatePrefix (trim ''2026-01''))"
    by (simp add: trim_def isSpace_def)
  have "fst (pollOnce (scriptedSandbox True) testImports 10 (scriptedWorld [Prints ''2026-01''])) = None"
    by (simp add: scriptedWorld_def scripted_miss [OF m])
  moreover have "fst (syncToR2 (scriptedSandbox True) testImports testEnv 10 2
     (scriptedWorld [Prints ''mounted\<newline>'', Prints ''exists'', Prints [],
                     Prints ''2026-01'', Prints ''2026-01''])) =
     Inr \<lparr>success = False, lastSync = None, error = Some ''Sync timed out'',
          details = Some ''Timestamp file not created within 3 minutes''\<rparr>"
    by (simp add: syncToR2_def scripted_launch poll_miss [OF _ scripted_miss [OF m]] poll_done)
  ultimately show ?thesis by (simp add: isDigit_def)
qed

text \<open>
  C4. If the loop is reached and none of the turns \<open>1\<close> to \<open>maxPolls\<close> finds a marker
  value that starts with a date, \<open>syncToR2\<close> returns failure with the error
  \<open>Sync timed out\<close>. No result returned before the loop (not configured, mount failure,
  no config file, verification failure, launch failure) carries that error.
\<close>

theorem syncToR2_timed_out:
  "(\<forall>w0 early w'. syncToR2_launch sandbox im env w0 = (Inr (Inl early), w') \<longrightarrow>
       error early \<noteq> Some ''Sync timed out'') \<and>
   (syncToR2_launch sandbox im env w = (Inr (Inr ()), w1) \<and>
    (\<forall>j. int j < maxPolls \<longrightarrow>
       fst (pollOnce sandbox im pollIntervalMs (pollWorld sandbox im pollIntervalMs j w1)) = None) \<longrightarrow>
      syncToR2 sandbox im env pollIntervalMs maxPolls w =
        (Inr \<lparr>success = False, lastSync = None, error = Some ''Sync timed out'',
              details = Some ''Timestamp file not created within 3 minutes''\<rparr>,
         pollWorld sandbox im pollIntervalMs (nat maxPolls) w1))"
proof (intro conjI impI allI)
  fix w0 early w'
  assume "syncToR2_launch sandbox im env w0 = (Inr (Inl early), w')"
  then show "error early \<noteq> Some ''Sync timed out''"
    using launch_returns_failure by blast
next
  assume h: "syncToR2_launch sandbox im env w = (Inr (Inr ()), w1) \<and>
    (\<forall>j. int j < maxPolls \<longrightarrow>
       fst (pollOnce sandbox im pollIntervalMs (pollWorld sandbox im pollIntervalMs j w1)) = None)"
  then have "\<forall>j. 0 + int j < maxPolls \<longrightarrow>
       fst (pollOnce sandbox im pollIntervalMs (pollWorld sandbox im pollIntervalMs j w1)) = None"
    by simp
  from poll_timeout [OF this] h
  show "syncToR2 sandbox im env pollIntervalMs maxPolls w =
        (Inr \<lparr>success = False, lastSync = None, error = Some ''Sync timed out'',
              details = Some ''Timestamp file not created within 3 minutes''\<rparr>,
         pollWorld sandbox im pollIntervalMs (nat maxPolls) w1)"
    by (simp add: syncToR2_def)
qed

theorem syncToR2_timed_out_witness:
  "syncToR2_launch (scriptedSandbox True) testImports testEnv
     (scriptedWorld [Prints ''mounted\<newline>'', Prints ''exists'', Prints []]) =
     (Inr (Inr ()),
      \<lparr>sbState = [],
       calls = mountedCalls @ probeCalls probePrimaryCmd @
               [StartProcess (buildSyncCmd ''/data/moltbot'' ''/root/.openclaw'')]\<rparr>) \<and>
   fst (pollOnce (scriptedSandbox True) testImports 10
     \<lparr>sbState = [],
      calls = mountedCalls @ probeCalls probePrimaryCmd @
              [StartProcess (buildSyncCmd ''/data/moltbot'' ''/root/.openclaw'')]\<rparr>) = None \<and>
   syncToR2 (scriptedSandbox True) testImports testEnv 10 3
     (scriptedWorld [Prints ''mounted\<newline>'', Prints ''exists'', Prints []]) =
     (Inr \<lparr>success = False, lastSync = None, error = Some ''Sync timed out'',
           details = Some ''Timestamp file not created within 3 minutes''\<rparr>,
      \<lparr>sbState = [],
       calls = mountedCalls @ probeCalls probePrimaryCmd @
               [StartProcess (buildSyncCmd ''/data/moltbot'' ''/root/.openclaw'')] @
               pollCalls 10 @ pollCalls 10 @ pollCalls 10\<rparr>)"
proof -
  let ?script = "[Prints ''mounted\<newline>'', Prints ''exists'', Prints []]"
  let ?L = "mountedCalls @ probeCalls probePrimaryCmd @
               [StartProcess (buildSyncCmd ''/data/moltbot'' ''/root/.openclaw'')]"
  let ?W1 = "\<lparr>sbState = [], calls = ?L\<rparr> :: (reply list) world"
  have l: "syncToR2_launch (scriptedSandbox True) testImports testEnv (scriptedWorld ?script) =
      (Inr (Inr ()), ?W1)"
    by (rule scripted_launch)
  have none: "fst (pollOnce (scriptedSandbox True) testImports 10
                (pollWorld (scriptedSandbox True) testImports 10 j ?W1)) = None" for j
    using scripted_exhausted_world [of 10 j ?L] by (auto simp: scripted_exhausted)
  have h: "syncToR2_launch (scriptedSandbox True) testImports testEnv (scriptedWorld ?script) =
             (Inr (Inr ()), ?W1) \<and>
    (\<forall>j. int j < 3 \<longrightarrow>
       fst (pollOnce (scriptedSandbox True) testImports 10
              (pollWorld (scriptedSandbox True) testImports 10 j ?W1)) = None)"
    using l none by blast
  have pw: "pollWorld (scriptedSandbox True) testImports 10 3 ?W1 =
      \<lparr>sbState = [], calls = ?L @ pollCalls 10 @ pollCalls 10 @ pollCalls 10\<rparr>"
    by (simp add: numeral_3_eq_3 scripted_exhausted)
  from syncToR2_timed_out
    [where sandbox = "scriptedSandbox True" and im = testImports and env = testEnv
       and w = "scriptedWorld ?script" and ?w1.0 = ?W1 and maxPolls = 3 and pollIntervalMs = 10,
     THEN conjunct2, THEN mp, OF h]
  show ?thesis
    using l by (simp add: pw scripted_exhausted)
qed

text \<open>
  C5, as amended. In \<open>syncToR2\<close>, a throw while probing for the primary or the legacy
  config marker ends the sync: the result is failure with the error
  \<open>Failed to verify source files\<close> and the thrown message as details; after a throw of
  the primary probe the legacy path is not probed, and no copy command is started.
\<close>

theorem syncToR2_probe_throws:
  "(\<not> notConfigured env \<and> mountR2Storage sandbox im env w = (Inr True, w1) \<and>
    runCommand sandbox im probePrimaryCmd 5000 w1 = (Inl err, w2) \<longrightarrow>
      syncToR2 sandbox im env pollIntervalMs maxPolls w =
        (Inr \<lparr>success = False, lastSync = None, error = Some ''Failed to verify source files'',
              details = Some (errorDetails err)\<rparr>, w2) \<and>
      started (calls w2) = started (calls w1) @ [probePrimaryCmd]) \<and>
   (\<not> notConfigured env \<and> mountR2Storage sandbox im env w = (Inr True, w1) \<and>
    runCommand sandbox im probePrimaryCmd 5000 w1 = (Inr checkNew, w2) \<and>
    \<not> str_includes (stdout checkNew) ''exists'' \<and>
    runCommand sandbox im probeLegacyCmd 5000 w2 = (Inl err, w3) \<longrightarrow>
      syncToR2 sandbox im env pollIntervalMs maxPolls w =
        (Inr \<lparr>success = False, lastSync = None, error = Some ''Failed to verify source files'',
              details = Some (errorDetails err)\<rparr>, w3) \<and>
      started (calls w3) = started (calls w1) @ [probePrimaryCmd, probeLegacyCmd])"
proof (intro conjI impI)
  assume h: "\<not> notConfigured env \<and> mountR2Storage sandbox im env w = (Inr True, w1) \<and>
    runCommand sandbox im probePrimaryCmd 5000 w1 = (Inl err, w2)"
  then have "syncToR2_launch sandbox im env w =
      (Inr (Inl \<lparr>success = False, lastSync = None, error = Some ''Failed to verify source files'',
              details = Some (errorDetails err)\<rparr>), w2)"
    by (simp add: syncToR2_launch_def)
  then show "syncToR2 sandbox im env pollIntervalMs maxPolls w =
        (Inr \<lparr>success = False, lastSync = None, error = Some ''Failed to verify source files'',
              details = Some (errorDetails err)\<rparr>, w2)"
    by (simp add: syncToR2_def)
  show "started (calls w2) = started (calls w1) @ [probePrimaryCmd]"
    using h runCommand_calls(1) by blast
next
  assume h: "\<not> notConfigured env \<and> mountR2Storage sandbox im env w = (Inr True, w1) \<and>
    runCommand sandbox im probePrimaryCmd 5000 w1 = (Inr checkNew, w2) \<and>
    \<not> str_includes (stdout checkNew) ''exists'' \<and>
    runCommand sandbox im probeLegacyCmd 5000 w2 = (Inl err, w3)"
  then have "syncToR2_launch sandbox im env w =
      (Inr (Inl \<lparr>success = False, lastSync = None, error = Some ''Failed to verify source files'',
              details = Some (errorDetails err)\<rparr>), w3)"
    by (simp add: syncToR2_launch_def)
  then show "syncToR2 sandbox im env pollIntervalMs maxPolls w =
        (Inr \<lparr>success = False, lastSync = None, error = Some ''Failed to verify source files'',
              details = Some (errorDetails err)\<rparr>, w3)"
    by (simp add: syncToR2_def)
  have p1: "started (calls w2) = started (calls w1) @ [probePrimaryCmd]"
    using h runCommand_calls(1) by blast
  have p2: "started (calls w3) = started (calls w2) @ [probeLegacyCmd]"
    using h runCommand_calls(1) by blast
  show "started (calls w3) = started (calls w1) @ [probePrimaryCmd, probeLegacyCmd]"
    using p1 p2 by simp
qed

theorem syncToR2_probe_throws_witness:
  "syncToR2 (scriptedSandbox True) testImports testEnv 2000 90
     (scriptedWorld [Prints ''mounted\<newline>'', Throws (NotAnError ''oops''), Prints ''exists'']) =
     (Inr \<lparr>success = False, lastSync = None, error = Some ''Failed to verify source files'',
           details = Some ''Unknown error''\<rparr>,
      \<lparr>sbState = [Prints ''exists''], calls = mountedCalls @ [StartProcess probePrimaryCmd]\<rparr>) \<and>
   syncToR2 (scriptedSandbox True) testImports testEnv 2000 90
     (scriptedWorld [Prints ''mounted\<newline>'', Prints [], Throws (Error ''gone'')]) =
     (Inr \<lparr>success = False, lastSync = None, error = Some ''Failed to verify source files'',
           details = Some ''gone''\<rparr>,
      \<lparr>sbState = [],
       calls = mountedCalls @ probeCalls probePrimaryCmd @ [StartProcess probeLegacyCmd]\<rparr>)"
proof -
  let ?sA = "[Prints ''mounted\<newline>'', Throws (NotAnError ''oops''), Prints ''exists'']"
  let ?A1 = "\<lparr>sbState = [Throws (NotAnError ''oops''), Prints ''exists''], calls = mountedCalls\<rparr>"
  let ?A2 = "\<lparr>sbState = [Prints ''exists''], calls = mountedCalls @ [StartProcess probePrimaryCmd]\<rparr>"
  have hA: "\<not> notConfigured testEnv \<and>
      mountR2Storage (scriptedSandbox True) testImports testEnv (scriptedWorld ?sA) = (Inr True, ?A1) \<and>
      runCommand (scriptedSandbox True) testImports probePrimaryCmd 5000 ?A1 = (Inl (NotAnError ''oops''), ?A2)"
    by (simp add: testEnv_configured scripted_mounted scripted_throw)
  let ?sB = "[Prints ''mounted\<newline>'', Prints [], Throws (Error ''gone'')]"
  let ?B1 = "\<lparr>sbState = [Prints [], Throws (Error ''gone'')], calls = mountedCalls\<rparr>"
  let ?B2 = "\<lparr>sbState = [Throws (Error ''gone'')], calls = mountedCalls @ probeCalls probePrimaryCmd\<rparr>"
  let ?B3 = "\<lparr>sbState = [],
       calls = mountedCalls @ probeCalls probePrimaryCmd @ [StartProcess probeLegacyCmd]\<rparr>"
  let ?c = "\<lparr>stdout = [], stderr = [], status = ''completed''\<rparr>"
  have hB: "\<not> notConfigured testEnv \<and>
      mountR2Storage (scriptedSandbox True) testImports testEnv (scriptedWorld ?sB) = (Inr True, ?B1) \<and>
      runCommand (scriptedSandbox True) testImports probePrimaryCmd 5000 ?B1 = (Inr ?c, ?B2) \<and>
      \<not> str_includes (stdout ?c) ''exists'' \<and>
      runCommand (scriptedSandbox True) testImports probeLegacyCmd 5000 ?B2 = (Inl (Error ''gone''), ?B3)"
    by (simp add: testEnv_configured scripted_mounted scripted_throw scripted_run probeCalls_def)
  from syncToR2_probe_throws
    [where sandbox = "scriptedSandbox True" and im = testImports and env = testEnv
       and w = "scriptedWorld ?sA" and ?w1.0 = ?A1 and ?w2.0 = ?A2 and err = "NotAnError ''oops''"
       and pollIntervalMs = 2000 and maxPolls = 90,
     THEN conjunct1, THEN mp, OF hA]
    syncToR2_probe_throws
    [where sandbox = "scriptedSandbox True" and im = testImports and env = testEnv
       and w = "scriptedWorld ?sB" and ?w1.0 = ?B1 and ?w2.0 = ?B2 and ?w3.0 = ?B3
       and checkNew = ?c and err = "Error ''gone''" and pollIntervalMs = 2000 and maxPolls = 90,
     THEN conjunct2, THEN mp, OF hB]
  show ?thesis by (simp add: errorDetails_def)
qed

text \<open>
  C5 as stated fails: the primary probe throws, the legacy marker would have been found
  by the next probe, and \<open>syncToR2\<close> returns \<open>Failed to verify source files\<close> having
  started the mount check and the primary probe only.
\<close>

theorem syncToR2_probe_throws_counterexample:
  "runCommand (scriptedSandbox True) testImports probePrimaryCmd 5000
     \<lparr>sbState = [Throws (Error ''boom''), Prints ''exists'', Prints [],
                 Prints ''2026-01-27T12:00:00+00:00''],
      calls = mountedCalls\<rparr> =
     (Inl (Error ''boom''),
      \<lparr>sbState = [Prints ''exists'', Prints [], Prints ''2026-01-27T12:00:00+00:00''],
       calls = mountedCalls @ [StartProcess probePrimaryCmd]\<rparr>) \<and>
   syncToR2 (scriptedSandbox True) testImports testEnv 2000 90
     (scriptedWorld [Prints ''mounted\<newline>'', Throws (Error ''boom''), Prints ''exists'',
                     Prints [], Prints ''2026-01-27T12:00:00+00:00'']) =
     (Inr \<lparr>success = False, lastSync = None, error = Some ''Failed to verify source files'',
           details = Some ''boom''\<rparr>,
      \<lparr>sbState = [Prints ''exists'', Prints [], Prints ''2026-01-27T12:00:00+00:00''],
       calls = mountedCalls @ [StartProcess probePrimaryCmd]\<rparr>) \<and>
   started (mountedCalls @ [StartProcess probePrimaryCmd]) =
     [mountCheckCmd ''/data/moltbot'', probePrimaryCmd]"
  by (simp add: syncToR2_def syncToR2_launch_def testEnv_configured scripted_mounted
        scripted_throw errorDetails_def)
     (simp add: mountedCalls_def)

text \<open>
  C6. In every run of \<open>syncToR2\<close>, if the legacy probe is among the commands started,
  the primary probe was started before it. When the bucket is mounted and both probes
  return without the sentinel \<open>exists\<close> in their output, \<open>syncToR2\<close> returns failure with
  the error \<open>Sync aborted: no config file found\<close>, having started the two probes in that
  order after the mount checks and no command built by \<open>buildSyncCmd\<close>.
\<close>

theorem syncToR2_no_config_found:
  "(\<forall>r w'. syncToR2 sandbox im env pollIntervalMs maxPolls w = (r, w') \<longrightarrow>
      probeLegacyCmd \<in> set (drop (length (started (calls w))) (started (calls w'))) \<longrightarrow>
      probePrimaryCmd \<in> set (takeWhile (\<lambda>c. c \<noteq> probeLegacyCmd)
                               (drop (length (started (calls w))) (started (calls w'))))) \<and>
   (\<not> notConfigured env \<and> mountR2Storage sandbox im env w = (Inr True, w1) \<and>
    runCommand sandbox im probePrimaryCmd 5000 w1 = (Inr checkNew, w2) \<and>
    \<not> str_includes (stdout checkNew) ''exists'' \<and>
    runCommand sandbox im probeLegacyCmd 5000 w2 = (Inr checkLegacy, w3) \<and>
    \<not> str_includes (stdout checkLegacy) ''exists'' \<longrightarrow>
      syncToR2 sandbox im env pollIntervalMs maxPolls w =
        (Inr \<lparr>success = False, lastSync = None,
              error = Some ''Sync aborted: no config file found'',
              details = Some ''Neither openclaw.json nor clawdbot.json found in config directory.''\<rparr>,
         w3) \<and>
      started (calls w3) = started (calls w1) @ [probePrimaryCmd, probeLegacyCmd] \<and>
      (\<forall>configDir. buildSyncCmd (R2_MOUNT_PATH im) configDir
          \<notin> set (drop (length (started (calls w))) (started (calls w3)))))"
proof (intro conjI allI impI)
  fix r w'
  let ?mp = "R2_MOUNT_PATH im"
  assume run: "syncToR2 sandbox im env pollIntervalMs maxPolls w = (r, w')"
    and leg: "probeLegacyCmd \<in> set (drop (length (started (calls w))) (started (calls w')))"
  obtain l w0 where l: "syncToR2_launch sandbox im env w = (l, w0)"
    by (cases "syncToR2_launch sandbox im env w")
  from launch_started [OF l] obtain n tail where
    s: "started (calls w0) = started (calls w) @ replicate n (mountCheckCmd ?mp) @ tail"
    and t: "tail = [] \<or> tail = [probePrimaryCmd] \<or> tail = [probePrimaryCmd, probeLegacyCmd] \<or>
            tail = [probePrimaryCmd, buildSyncCmd ?mp ''/root/.openclaw''] \<or>
            tail = [probePrimaryCmd, probeLegacyCmd, buildSyncCmd ?mp ''/root/.clawdbot'']"
    by blast
  from syncToR2_world [of maxPolls sandbox im env pollIntervalMs w] obtain k where
    "w' = pollWorld sandbox im pollIntervalMs k w0"
    using run l by auto
  then have "started (calls w') =
      started (calls w) @ replicate n (mountCheckCmd ?mp) @ tail @ replicate k (markerReadCmd ?mp)"
    using pollWorld_calls [of sandbox im pollIntervalMs k w0] s by simp
  then have d: "drop (length (started (calls w))) (started (calls w')) =
      replicate n (mountCheckCmd ?mp) @ tail @ replicate k (markerReadCmd ?mp)"
    by simp
  show "probePrimaryCmd \<in> set (takeWhile (\<lambda>c. c \<noteq> probeLegacyCmd)
                               (drop (length (started (calls w))) (started (calls w'))))"
    using legacy_after_primary [OF t] leg unfolding d by blast
next
  assume h: "\<not> notConfigured env \<and> mountR2Storage sandbox im env w = (Inr True, w1) \<and>
    runCommand sandbox im probePrimaryCmd 5000 w1 = (Inr checkNew, w2) \<and>
    \<not> str_includes (stdout checkNew) ''exists'' \<and>
    runCommand sandbox im probeLegacyCmd 5000 w2 = (Inr checkLegacy, w3) \<and>
    \<not> str_includes (stdout checkLegacy) ''exists''"
  then have "syncToR2_launch sandbox im env w =
      (Inr (Inl \<lparr>success = False, lastSync = None,
              error = Some ''Sync aborted: no config file found'',
              details = Some ''Neither openclaw.json nor clawdbot.json found in config directory.''\<rparr>),
       w3)"
    by (simp add: syncToR2_launch_def)
  then show "syncToR2 sandbox im env pollIntervalMs maxPolls w =
        (Inr \<lparr>success = False, lastSync = None,
              error = Some ''Sync aborted: no config file found'',
              details = Some ''Neither openclaw.json nor clawdbot.json found in config directory.''\<rparr>,
         w3)"
    by (simp add: syncToR2_def)
  have p1: "started (calls w2) = started (calls w1) @ [probePrimaryCmd]"
    using h runCommand_calls(1) by blast
  have p2: "started (calls w3) = started (calls w2) @ [probeLegacyCmd]"
    using h runCommand_calls(1) by blast
  show s3: "started (calls w3) = started (calls w1) @ [probePrimaryCmd, probeLegacyCmd]"
    using p1 p2 by simp
  from h mountR2Storage_calls(2) obtain n where
    "started (calls w1) = started (calls w) @ replicate n (mountCheckCmd (R2_MOUNT_PATH im))"
    by blast
  with s3 have "drop (length (started (calls w))) (started (calls w3)) =
      replicate n (mountCheckCmd (R2_MOUNT_PATH im)) @ [probePrimaryCmd, probeLegacyCmd]"
    by simp
  then show "buildSyncCmd (R2_MOUNT_PATH im) configDir
          \<notin> set (drop (length (started (calls w))) (started (calls w3)))" for configDir
    by auto
qed

theorem syncToR2_no_config_found_witness:
  "\<not> notConfigured testEnv \<and>
   mountR2Storage (scriptedSandbox True) testImports testEnv
     (scriptedWorld [Prints ''mounted\<newline>'', Prints [], Prints []]) =
     (Inr True, \<lparr>sbState = [Prints [], Prints []], calls = mountedCalls\<rparr>) \<and>
   runCommand (scriptedSandbox True) testImports probePrimaryCmd 5000
     \<lparr>sbState = [Prints [], Prints []], calls = mountedCalls\<rparr> =
     (Inr \<lparr>stdout = [], stderr = [], status = ''completed''\<rparr>,
      \<lparr>sbState = [Prints []], calls = mountedCalls @ probeCalls probePrimaryCmd\<rparr>) \<and>
   runCommand (scriptedSandbox True) testImports probeLegacyCmd 5000
     \<lparr>sbState = [Prints []], calls = mountedCalls @ probeCalls probePrimaryCmd\<rparr> =
     (Inr \<lparr>stdout = [], stderr = [], status = ''completed''\<rparr>,
      \<lparr>sbState = [],
       calls = mountedCalls @ probeCalls probePrimaryCmd @ probeCalls probeLegacyCmd\<rparr>) \<and>
   syncToR2 (scriptedSandbox True) testImports testEnv 2000 90
     (scriptedWorld [Prints ''mounted\<newline>'', Prints [], Prints []]) =
     (Inr \<lparr>success = False, lastSync = None,
           error = Some ''Sync aborted: no config file found'',
           details = Some ''Neither openclaw.json nor clawdbot.json found in config directory.''\<rparr>,
      \<lparr>sbState = [],
       calls = mountedCalls @ probeCalls probePrimaryCmd @ probeCalls probeLegacyCmd\<rparr>) \<and>
   started (mountedCalls @ probeCalls probePrimaryCmd @ probeCalls probeLegacyCmd) =
     [mountCheckCmd ''/data/moltbot'', probePrimaryCmd, probeLegacyCmd] \<and>
   buildSyncCmd ''/data/moltbot'' ''/root/.openclaw'' \<notin>
     set (started (mountedCalls @ probeCalls probePrimaryCmd @ probeCalls probeLegacyCmd))"
proof -
  let ?s = "[Prints ''mounted\<newline>'', Prints [], Prints []]"
  let ?W1 = "\<lparr>sbState = [Prints [], Prints []], calls = mountedCalls\<rparr>"
  let ?W2 = "\<lparr>sbState = [Prints []], calls = mountedCalls @ probeCalls probePrimaryCmd\<rparr>"
  let ?W3 = "\<lparr>sbState = [],
       calls = mountedCalls @ probeCalls probePrimaryCmd @ probeCalls probeLegacyCmd\<rparr> :: (reply list) world"
  let ?c = "\<lparr>stdout = [], stderr = [], status = ''completed''\<rparr>"
  have h: "\<not> notConfigured testEnv \<and>
      mountR2Storage (scriptedSandbox True) testImports testEnv (scriptedWorld ?s) = (Inr True, ?W1) \<and>
      runCommand (scriptedSandbox True) testImports probePrimaryCmd 5000 ?W1 = (Inr ?c, ?W2) \<and>
      \<not> str_includes (stdout ?c) ''exists'' \<and>
      runCommand (scriptedSandbox True) testImports probeLegacyCmd 5000 ?W2 = (Inr ?c, ?W3) \<and>
      \<not> str_includes (stdout ?c) ''exists''"
    by (simp add: testEnv_configured scripted_mounted scripted_run probeCalls_def)
  from syncToR2_no_config_found
    [where sandbox = "scriptedSandbox True" and im = testImports and env = testEnv
       and w = "scriptedWorld ?s" and ?w1.0 = ?W1 and ?w2.0 = ?W2 and ?w3.0 = ?W3
       and checkNew = ?c and checkLegacy = ?c and pollIntervalMs = 2000 and maxPolls = 90,
     THEN conjunct2, THEN mp, OF h]
  have r: "syncToR2 (scriptedSandbox True) testImports testEnv 2000 90 (scriptedWorld ?s) =
     (Inr \<lparr>success = False, lastSync = None,
           error = Some ''Sync aborted: no config file found'',
           details = Some ''Neither openclaw.json nor clawdbot.json found in config directory.''\<rparr>,
      ?W3)"
    by blast
  have s: "started (mountedCalls @ probeCalls probePrimaryCmd @ probeCalls probeLegacyCmd) =
     [mountCheckCmd ''/data/moltbot'', probePrimaryCmd, probeLegacyCmd]"
    by (simp add: mountedCalls_def probeCalls_def)
  show ?thesis
    using h r by (simp add: s)
qed

text \<open>
  C7. When any of the access key, the secret key or the account identifier is missing
  (undefined or empty), \<open>mountR2Storage\<close> returns false at once: the world it returns is
  the world it was given, so no call was made, \<open>mountBucket\<close> included, and the sandbox
  state is untouched.
\<close>

theorem mountR2Storage_missing_credentials:
  "falsy (R2_ACCESS_KEY_ID env) \<or> falsy (R2_SECRET_ACCESS_KEY env) \<or> falsy (CF_ACCOUNT_ID env) \<Longrightarrow>
   mountR2Storage sandbox im env w = (Inr False, w)"
  by (simp add: mountR2Storage_def notConfigured_def)

theorem mountR2Storage_missing_credentials_witness:
  "falsy (CF_ACCOUNT_ID (testEnv\<lparr>CF_ACCOUNT_ID := None\<rparr>)) \<and>
   mountR2Storage (scriptedSandbox True) testImports (testEnv\<lparr>CF_ACCOUNT_ID := None\<rparr>)
     (scriptedWorld [Prints ''mounted'']) = (Inr False, scriptedWorld [Prints ''mounted''])"
  using mountR2Storage_missing_credentials
    [of "testEnv\<lparr>CF_ACCOUNT_ID := None\<rparr>" "scriptedSandbox True" testImports
        "scriptedWorld [Prints ''mounted'']"]
  by (simp add: falsy_def)

text \<open>
  C8. The claim: when \<open>mountBucket\<close> throws, the mount table is checked once more,
  \<open>mountR2Storage\<close> returns what that check says, and nothing is thrown to the caller.
  For a thrown value that \<open>String\<close> can convert the code does so
  (\<open>mountR2Storage_recheck_after_throw\<close>). It does not for every thrown value: here the first
  mount check says unmounted, \<open>mountBucket\<close> rejects with an object without a prototype,
  and the mount table would answer \<open>mounted\<close> to a recheck. \<open>String(err)\<close> throws a
  \<open>TypeError\<close> inside the handler: \<open>mountR2Storage\<close> throws it, having made one mount check
  and one mount attempt and no recheck.
\<close>

theorem mountR2Storage_unprintable_throw:
  "mountR2Storage (throwingMountSandbox nullPrototypeObject) testImports testEnv
     (scriptedWorld [Prints [], Prints ''mounted\<newline>'']) =
     (Inl typeError,
      \<lparr>sbState = [Prints ''mounted\<newline>''],
       calls = mountedCalls @
               [MountBucket ''moltbot-data'' ''/data/moltbot'' (mountOptions testEnv)]\<rparr>) \<and>
   isR2Mounted (throwingMountSandbox nullPrototypeObject) testImports
     \<lparr>sbState = [Prints ''mounted\<newline>''],
      calls = mountedCalls @
              [MountBucket ''moltbot-data'' ''/data/moltbot'' (mountOptions testEnv)]\<rparr> =
     (Inr True,
      \<lparr>sbState = [],
       calls = mountedCalls @
               [MountBucket ''moltbot-data'' ''/data/moltbot'' (mountOptions testEnv)] @
               mountedCalls\<rparr>)"
  by (simp add: throwingMountSandbox_def nullPrototypeObject_def errorMessage_def
        scripted_defs run_defs mountedCalls_def)

text \<open>
  C9. The claim: whatever the sandbox does, \<open>syncToR2\<close> returns a \<open>SyncResult\<close> and no
  exception leaves it. The code lets one out: \<open>mountR2Storage\<close> is awaited outside any
  \<open>try\<close>, and with the first mount check unmounted and \<open>mountBucket\<close> rejecting with an
  object without a prototype, the \<open>TypeError\<close> of \<open>String(err)\<close> leaves \<open>mountR2Storage\<close>
  and then \<open>syncToR2\<close>. By \<open>syncToR2_throws\<close> this is the only way out: every other throw
  of the interface is turned into a result, and the loop ends.
\<close>

theorem syncToR2_unprintable_throw:
  "syncToR2 (throwingMountSandbox nullPrototypeObject) testImports testEnv 2000 90
     (scriptedWorld [Prints []]) =
     (Inl typeError,
      \<lparr>sbState = [],
       calls = mountedCalls @
               [MountBucket ''moltbot-data'' ''/data/moltbot'' (mountOptions testEnv)]\<rparr>)"
  by (simp add: syncToR2_def throwingMountSandbox_def nullPrototypeObject_def errorMessage_def
        scripted_defs run_defs mountedCalls_def)

text \<open>
  C10. Every result returned by \<open>syncToR2\<close>: if \<open>success\<close> is true, \<open>lastSync\<close> is
  present, not empty, neither starts nor ends with white space, starts with four digits,
  a hyphen, two digits, a hyphen and two digits, and \<open>error\<close> is absent; if \<open>success\<close>
  is false, \<open>error\<close> is present and \<open>lastSync\<close> is absent.
\<close>

theorem syncToR2_result_shape:
  assumes "fst (syncToR2 sandbox im env pollIntervalMs maxPolls w) = Inr r"
  shows "(success r \<longrightarrow>
            (\<exists>v. lastSync r = Some v \<and> v \<noteq> [] \<and> \<not> isSpace (hd v) \<and> \<not> isSpace (last v) \<and>
                 matchesDatePrefix v) \<and> error r = None) \<and>
         (\<not> success r \<longrightarrow> error r \<noteq> None \<and> lastSync r = None)"
proof -
  obtain l w1 where l: "syncToR2_launch sandbox im env w = (l, w1)"
    by (cases "syncToR2_launch sandbox im env w")
  show ?thesis
  proof (cases l)
    case (Inl e)
    with l assms show ?thesis by (simp add: syncToR2_def)
  next
    case (Inr x)
    show ?thesis
    proof (cases x)
      case (Inl early)
      then have "r = early" using assms l Inr by (simp add: syncToR2_def)
      then show ?thesis using launch_returns_failure [of sandbox im env w early w1] l Inr Inl by simp
    next
      case (Inr u)
      obtain p w2 where p: "syncToR2_poll sandbox im pollIntervalMs maxPolls 0 w1 = (p, w2)"
        by (cases "syncToR2_poll sandbox im pollIntervalMs maxPolls 0 w1")
      then have "p = Inr r" using assms l \<open>l = Inr x\<close> Inr by (simp add: syncToR2_def)
      with poll_result [OF p] show ?thesis
        using trim_ends by auto
    qed
  qed
qed

theorem syncToR2_result_shape_witness:
  "fst (syncToR2 (scriptedSandbox True) testImports testEnv 2000 90
     (scriptedWorld [Prints ''mounted\<newline>'', Prints ''exists'', Prints [],
                     Prints ''2026-01-27T12:00:00+00:00'']))
   = Inr \<lparr>success = True, lastSync = Some ''2026-01-27T12:00:00+00:00'',
          error = None, details = None\<rparr> \<and>
   \<not> isSpace (hd ''2026-01-27T12:00:00+00:00'') \<and>
   \<not> isSpace (last ''2026-01-27T12:00:00+00:00'') \<and>
   matchesDatePrefix ''2026-01-27T12:00:00+00:00''"
proof -
  have tr: "trim ''2026-01-27T12:00:00+00:00'' = ''2026-01-27T12:00:00+00:00''"
    by (simp add: trim_def isSpace_def)
  have hit: "pollOnce (scriptedSandbox True) testImports 2000
       \<lparr>sbState = [Prints ''2026-01-27T12:00:00+00:00''], calls = cs\<rparr> =
     (Some ''2026-01-27T12:00:00+00:00'', \<lparr>sbState = [], calls = cs @ pollCalls 2000\<rparr>)" for cs
    using scripted_hit [of "''2026-01-27T12:00:00+00:00''" 2000 "[]" cs]
    by (simp add: tr isDigit_def)
  have run: "fst (syncToR2 (scriptedSandbox True) testImports testEnv 2000 90
     (scriptedWorld [Prints ''mounted\<newline>'', Prints ''exists'', Prints [],
                     Prints ''2026-01-27T12:00:00+00:00'']))
   = Inr \<lparr>success = True, lastSync = Some ''2026-01-27T12:00:00+00:00'',
          error = None, details = None\<rparr>"
    by (simp add: syncToR2_def scripted_launch poll_hit [OF _ hit])
  show ?thesis
    using syncToR2_result_shape [OF run] run by simp
qed

end
